theory Spec2Isabelle
  imports Complex_Main
begin

section \<open>Python values used by the parameter-search scripts\<close>

text \<open>
  The two scripts \<^verbatim>\<open>find_constant_product_params.py\<close> and
  \<^verbatim>\<open>find_constant_product_params_with_graduation_fee.py\<close> compute with Python's
  unbounded \<^verbatim>\<open>int\<close> (here \<^typ>\<open>int\<close>) and with \<^verbatim>\<open>decimal.Decimal\<close> under a context
  precision of 80 respectively 90 significant digits and the default rounding
  \<^verbatim>\<open>ROUND_HALF_EVEN\<close>.

  A finite \<^verbatim>\<open>Decimal\<close> is a signed coefficient and an exponent; the pair \<open>(c, e)\<close> stands for
  \<open>c * 10 ^ e\<close>. Every arithmetic operation computes the exact result and rounds it to the
  context precision. The special values \<^verbatim>\<open>NaN\<close> and \<^verbatim>\<open>Infinity\<close> and the exponent limits
  of the context (\<open>\<plusminus>999999\<close>) are outside this model: the decimals here are the finite ones.
\<close>

datatype error = ValueError string | RuntimeError string

type_synonym decimal = "int \<times> int"

text \<open>
  The number of decimal digits of a non-negative integer, \<^verbatim>\<open>len(str(n))\<close>: the least
  \<open>d \<ge> 1\<close> with \<open>n < 10 ^ d\<close>, found by climbing the powers of ten from \<open>p = 10 ^ d\<close>.
\<close>

function digits_from :: "int \<Rightarrow> int \<Rightarrow> nat \<Rightarrow> nat" where
  "digits_from n p d = (if n < p \<or> p \<le> 0 then d else digits_from n (p * 10) (Suc d))"
  by pat_completeness auto
termination
  by (relation "measure (\<lambda>(n, p, d). nat (n - p + 1))") auto

declare digits_from.simps [simp del]

definition num_digits :: "int \<Rightarrow> nat" where
  "num_digits n = digits_from n 10 1"

text \<open>The rational number a decimal stands for.\<close>

definition dec_val :: "decimal \<Rightarrow> rat" where
  "dec_val d = of_int (fst d) * 10 powi (snd d)"

definition dec_of_int :: "int \<Rightarrow> decimal" where
  "dec_of_int n = (n, 0)"

definition dec_fix :: "nat \<Rightarrow> decimal \<Rightarrow> decimal" where
  "dec_fix prec d =
     (let c = fst d; e = snd d; n = num_digits \<bar>c\<bar>
      in if n \<le> prec then (c, e)
         else (let drop = n - prec; p = 10 ^ drop;
                   q = \<bar>c\<bar> div p; r = \<bar>c\<bar> - q * p;
                   q' = (if 2 * r < p then q
                         else if p < 2 * r then q + 1
                         else if even q then q else q + 1)
               in (sgn c * q', e + int drop)))"

definition dec_mul :: "nat \<Rightarrow> decimal \<Rightarrow> decimal \<Rightarrow> decimal" where
  "dec_mul prec a b = dec_fix prec (fst a * fst b, snd a + snd b)"

definition dec_align :: "decimal \<Rightarrow> int \<Rightarrow> int" where
  "dec_align d m = fst d * 10 ^ nat (snd d - m)"

definition dec_add :: "nat \<Rightarrow> decimal \<Rightarrow> decimal \<Rightarrow> decimal" where
  "dec_add prec a b =
     (let m = min (snd a) (snd b) in dec_fix prec (dec_align a m + dec_align b m, m))"

definition dec_sub :: "nat \<Rightarrow> decimal \<Rightarrow> decimal \<Rightarrow> decimal" where
  "dec_sub prec a b =
     (let m = min (snd a) (snd b) in dec_fix prec (dec_align a m - dec_align b m, m))"

definition dec_abs :: "nat \<Rightarrow> decimal \<Rightarrow> decimal" where
  "dec_abs prec a = dec_fix prec (\<bar>fst a\<bar>, snd a)"

text \<open>
  Division as \<^verbatim>\<open>Decimal.__truediv__\<close> performs it: the dividend is scaled so that the integer
  quotient has \<open>prec + 1\<close> or \<open>prec + 2\<close> digits, an inexact quotient ending in 0 or 5 is
  bumped by one so that the final rounding sees the remainder, and the result is rounded to
  the precision. Quotient and remainder are those of \<^verbatim>\<open>divmod\<close>; the remainder is written
  as the dividend minus quotient times divisor. The divisor is non-zero at every call of the
  scripts.
\<close>

definition dec_div :: "nat \<Rightarrow> decimal \<Rightarrow> decimal \<Rightarrow> decimal" where
  "dec_div prec a b =
     (if fst a = 0 then (0, snd a - snd b)
      else (let n1 = \<bar>fst a\<bar>; n2 = \<bar>fst b\<bar>;
                shift = int (num_digits n2) - int (num_digits n1) + int prec + 1;
                ex = snd a - snd b - shift;
                num = (if 0 \<le> shift then n1 * 10 ^ nat shift else n1);
                den = (if 0 \<le> shift then n2 else n2 * 10 ^ nat (- shift));
                coeff = num div den; rem = num - coeff * den;
                coeff' = (if rem \<noteq> 0 \<and> coeff mod 5 = 0 then coeff + 1 else coeff)
            in dec_fix prec (sgn (fst a) * sgn (fst b) * coeff', ex)))"

definition dec_less :: "decimal \<Rightarrow> decimal \<Rightarrow> bool" where
  "dec_less a b = (let m = min (snd a) (snd b) in dec_align a m < dec_align b m)"

definition dec_is_zero :: "decimal \<Rightarrow> bool" where
  "dec_is_zero a = (fst a = 0)"

text \<open>\<^verbatim>\<open>int(d)\<close> truncates towards zero.\<close>

definition dec_to_int :: "decimal \<Rightarrow> int" where
  "dec_to_int d =
     (if 0 \<le> snd d then fst d * 10 ^ nat (snd d)
      else sgn (fst d) * (\<bar>fst d\<bar> div 10 ^ nat (- snd d)))"

section \<open>Constants and helpers shared by both scripts\<close>

text \<open>
  Both scripts open with the same constants and the same definitions of
  \<^verbatim>\<open>reserves_from_eth\<close> and \<^verbatim>\<open>t0_real_numerator\<close>; they differ in the context precision
  that \<^verbatim>\<open>to_wei\<close> multiplies under.
\<close>

definition WAD :: int where
  "WAD = 10 ^ 18"

definition TOTAL_SUPPLY :: int where
  "TOTAL_SUPPLY = 1000000000 * WAD"

definition TARGET_ETH :: decimal where
  "TARGET_ETH = (85, - 1)"

definition to_wei_prec :: "nat \<Rightarrow> decimal \<Rightarrow> int" where
  "to_wei_prec prec value_eth = dec_to_int (dec_mul prec value_eth (dec_of_int WAD))"

definition TARGET_ETH_WEI :: int where
  "TARGET_ETH_WEI = to_wei_prec 80 TARGET_ETH"

definition TARGET_TOKENS :: int where
  "TARGET_TOKENS = 200000000 * WAD"

text \<open>
  Python's \<^verbatim>\<open>//\<close> on integers is floor division, as \<open>div\<close> on \<^typ>\<open>int\<close> is. The divisor
  \<open>eth_reserves + e0\<close> is positive wherever the scripts call this function: they call it
  with \<open>eth_reserves \<ge> 0\<close> after rejecting \<open>e0 \<le> 0\<close>.
\<close>

definition reserves_from_eth :: "int \<Rightarrow> int \<Rightarrow> int \<Rightarrow> int \<Rightarrow> int" where
  "reserves_from_eth k t0 e0 eth_reserves = k div (eth_reserves + e0) - t0"

definition t0_real_numerator :: "int \<Rightarrow> int" where
  "t0_real_numerator e0 = (TOTAL_SUPPLY - TARGET_TOKENS) * e0 - TARGET_TOKENS * TARGET_ETH_WEI"

section \<open>\<^verbatim>\<open>find_constant_product_params.py\<close>\<close>

record Candidate =
  c_k :: int
  c_t0 :: int
  c_e0 :: int
  c_t_at_zero :: int
  c_t_at_target :: int
  c_target_error :: int

definition to_wei :: "decimal \<Rightarrow> int" where
  "to_wei value_eth = to_wei_prec 80 value_eth"

definition evaluate_candidate :: "int \<Rightarrow> int \<Rightarrow> Candidate option" where
  "evaluate_candidate e0 t0 =
     (if e0 \<le> 0 \<or> t0 < 0 then None
      else (let k = (TOTAL_SUPPLY + t0) * e0;
                t_at_zero = reserves_from_eth k t0 e0 0
            in if t_at_zero \<noteq> TOTAL_SUPPLY then None
               else (let t_at_target = reserves_from_eth k t0 e0 TARGET_ETH_WEI;
                         err = \<bar>t_at_target - TARGET_TOKENS\<bar>
                     in Some \<lparr>c_k = k, c_t0 = t0, c_e0 = e0, c_t_at_zero = t_at_zero,
                              c_t_at_target = t_at_target, c_target_error = err\<rparr>)))"

text \<open>The body of the inner \<^verbatim>\<open>for t0 in candidate_t0_values\<close> loop, for one \<open>t0\<close>.\<close>

definition try_t0 :: "int \<Rightarrow> Candidate option \<Rightarrow> int \<Rightarrow> Candidate option" where
  "try_t0 e0 best t0 =
     (case evaluate_candidate e0 t0 of
        None \<Rightarrow> best
      | Some cand \<Rightarrow>
          (case best of
             None \<Rightarrow> Some cand
           | Some b \<Rightarrow>
               if c_target_error cand < c_target_error b then Some cand
               else if c_target_error cand = c_target_error b \<and> c_e0 cand < c_e0 b
                    then Some cand
                    else Some b))"

text \<open>
  \<^verbatim>\<open>candidate_t0_values\<close> is a Python \<^verbatim>\<open>set\<close> of the five integers
  \<open>floor_t0 - 2, \<dots>, floor_t0 + 2\<close>; the order in which the \<^verbatim>\<open>for\<close> loop visits them is the
  interpreter's. The order is a parameter \<open>ord\<close> of the model: \<open>ord floor_t0\<close> lists the
  five values in the order of the iteration.
\<close>

definition set_order_ok :: "(int \<Rightarrow> int list) \<Rightarrow> bool" where
  "set_order_ok ord =
     (\<forall>f. distinct (ord f) \<and> set (ord f) = {f - 2, f - 1, f, f + 1, f + 2})"

definition ascending :: "int \<Rightarrow> int list" where
  "ascending f = [f - 2, f - 1, f, f + 1, f + 2]"

text \<open>
  The \<^verbatim>\<open>while e0 <= max_e0\<close> loop. It does not return when \<open>step_e0 \<le> 0\<close> and
  \<open>e0 \<le> max_e0\<close>, so its result is optional. The last argument counts the iterations of
  the loop body; nothing reads it.
\<close>

partial_function (option) scan ::
  "(int \<Rightarrow> int list) \<Rightarrow> int \<Rightarrow> int \<Rightarrow> int \<Rightarrow> Candidate option \<Rightarrow> nat
     \<Rightarrow> (Candidate option \<times> nat) option" where
  "scan ord e0 max_e0 step_e0 best n =
     (if e0 \<le> max_e0
      then scan ord (e0 + step_e0) max_e0 step_e0
             (foldl (try_t0 e0) best (ord (t0_real_numerator e0 div TARGET_ETH_WEI))) (Suc n)
      else Some (best, n))"

declare scan.simps [code]

definition search ::
  "(int \<Rightarrow> int list) \<Rightarrow> decimal \<Rightarrow> decimal \<Rightarrow> decimal \<Rightarrow> (error + Candidate) option" where
  "search ord min_e0_eth max_e0_eth step_e0_eth =
     (let min_e0 = to_wei min_e0_eth;
          max_e0 = to_wei max_e0_eth;
          step_e0 = to_wei step_e0_eth
      in if min_e0 \<le> 0 then Some (Inl (ValueError ''min_e0_eth must be > 0''))
         else if max_e0 < min_e0 then Some (Inl (ValueError ''max_e0_eth must be >= min_e0_eth''))
         else if step_e0 \<le> 0 then Some (Inl (ValueError ''step_e0_eth must be > 0''))
         else (case scan ord min_e0 max_e0 step_e0 None 0 of
                 None \<Rightarrow> None
               | Some (best, n) \<Rightarrow>
                   (case best of
                      None \<Rightarrow> Some (Inl (RuntimeError ''No valid candidate found in the provided range''))
                    | Some b \<Rightarrow> Some (Inr b))))"

section \<open>\<^verbatim>\<open>find_constant_product_params_with_graduation_fee.py\<close>\<close>

record Candidate_fee =
  f_k :: int
  f_t0 :: int
  f_e0 :: int
  f_t_at_zero :: int
  f_t_at_grad :: int
  f_token_error_wei :: int
  f_fee_for_price_match_wei :: int
  f_fee_error_wei :: int
  f_price_curve :: decimal
  f_price_uni_with_target_fee :: decimal
  f_price_deviation_ratio :: decimal
  f_score :: decimal

definition TARGET_FEE_ETH :: decimal where
  "TARGET_FEE_ETH = (5, - 1)"

definition to_wei_fee :: "decimal \<Rightarrow> int" where
  "to_wei_fee value_eth = to_wei_prec 90 value_eth"

definition TARGET_FEE_WEI :: int where
  "TARGET_FEE_WEI = to_wei_fee TARGET_FEE_ETH"

definition score_candidate ::
  "int \<Rightarrow> int \<Rightarrow> decimal \<Rightarrow> decimal \<Rightarrow> decimal \<Rightarrow> decimal \<Rightarrow> int \<Rightarrow> decimal" where
  "score_candidate token_error_wei fee_error_wei price_deviation_ratio w_token w_fee w_price
       fee_for_price_match_wei =
     (let token_error_ratio = dec_div 90 (dec_of_int token_error_wei) (dec_of_int TARGET_TOKENS);
          fee_error_ratio = dec_div 90 (dec_of_int fee_error_wei) (dec_of_int TARGET_FEE_WEI);
          score = dec_add 90
                    (dec_add 90 (dec_mul 90 w_token token_error_ratio)
                                (dec_mul 90 w_fee fee_error_ratio))
                    (dec_mul 90 w_price price_deviation_ratio)
      in if fee_for_price_match_wei < 0 then dec_add 90 score (dec_of_int 1) else score)"

definition evaluate_candidate_fee ::
  "int \<Rightarrow> int \<Rightarrow> int \<Rightarrow> decimal \<Rightarrow> decimal \<Rightarrow> decimal \<Rightarrow> Candidate_fee option" where
  "evaluate_candidate_fee e0 t0 target_fee_wei w_token w_fee w_price =
     (if e0 \<le> 0 \<or> t0 < 0 then None
      else (let k = (TOTAL_SUPPLY + t0) * e0;
                t_at_zero = reserves_from_eth k t0 e0 0
            in if t_at_zero \<noteq> TOTAL_SUPPLY then None
               else (let t_at_grad = reserves_from_eth k t0 e0 TARGET_ETH_WEI
                     in if t_at_grad \<le> 0 then None
                        else (let token_error_wei = \<bar>t_at_grad - TARGET_TOKENS\<bar>;
                                  price_curve = dec_div 90 (dec_of_int ((TARGET_ETH_WEI + e0) ^ 2))
                                                  (dec_of_int k);
                                  uni_eth_after_target_fee = TARGET_ETH_WEI - target_fee_wei
                              in if uni_eth_after_target_fee \<le> 0 then None
                                 else (let price_uni_with_target_fee =
                                             dec_div 90 (dec_of_int uni_eth_after_target_fee)
                                               (dec_of_int t_at_grad)
                                       in if dec_is_zero price_curve then None
                                          else (let price_deviation_ratio =
                                                      dec_div 90
                                                        (dec_abs 90 (dec_sub 90 price_uni_with_target_fee price_curve))
                                                        price_curve;
                                                    fee_for_price_match_wei =
                                                      dec_to_int
                                                        (dec_sub 90 (dec_of_int TARGET_ETH_WEI)
                                                           (dec_mul 90 (dec_of_int t_at_grad) price_curve));
                                                    fee_error_wei = \<bar>fee_for_price_match_wei - target_fee_wei\<bar>;
                                                    score = score_candidate token_error_wei fee_error_wei
                                                              price_deviation_ratio w_token w_fee w_price
                                                              fee_for_price_match_wei
                                                in Some \<lparr>f_k = k, f_t0 = t0, f_e0 = e0,
                                                         f_t_at_zero = t_at_zero, f_t_at_grad = t_at_grad,
                                                         f_token_error_wei = token_error_wei,
                                                         f_fee_for_price_match_wei = fee_for_price_match_wei,
                                                         f_fee_error_wei = fee_error_wei,
                                                         f_price_curve = price_curve,
                                                         f_price_uni_with_target_fee = price_uni_with_target_fee,
                                                         f_price_deviation_ratio = price_deviation_ratio,
                                                         f_score = score\<rparr>))))))"

text \<open>The body of the inner \<^verbatim>\<open>for t0 in range(\<dots>)\<close> loop, for one \<open>t0\<close>.\<close>

definition try_t0_fee ::
  "int \<Rightarrow> decimal \<Rightarrow> decimal \<Rightarrow> decimal \<Rightarrow> int \<Rightarrow> Candidate_fee option \<Rightarrow> int
     \<Rightarrow> Candidate_fee option" where
  "try_t0_fee target_fee_wei w_token w_fee w_price e0 best t0 =
     (case evaluate_candidate_fee e0 t0 target_fee_wei w_token w_fee w_price of
        None \<Rightarrow> best
      | Some cand \<Rightarrow>
          (case best of
             None \<Rightarrow> Some cand
           | Some b \<Rightarrow> if dec_less (f_score cand) (f_score b) then Some cand else Some b))"

text \<open>
  The \<^verbatim>\<open>while\<close> loop of the graduation-fee script;
  \<^verbatim>\<open>range(floor_t0 - t0_window, floor_t0 + t0_window + 1)\<close> is the ascending list
  \<open>[floor_t0 - t0_window .. floor_t0 + t0_window]\<close>. The last argument counts iterations.
\<close>

partial_function (option) scan_fee ::
  "int \<Rightarrow> decimal \<Rightarrow> decimal \<Rightarrow> decimal \<Rightarrow> int \<Rightarrow> int \<Rightarrow> int \<Rightarrow> int
     \<Rightarrow> Candidate_fee option \<Rightarrow> nat \<Rightarrow> (Candidate_fee option \<times> nat) option" where
  "scan_fee target_fee_wei w_token w_fee w_price t0_window e0 max_e0 step_e0 best n =
     (if e0 \<le> max_e0
      then scan_fee target_fee_wei w_token w_fee w_price t0_window (e0 + step_e0) max_e0 step_e0
             (foldl (try_t0_fee target_fee_wei w_token w_fee w_price e0) best
                [t0_real_numerator e0 div TARGET_ETH_WEI - t0_window ..
                 t0_real_numerator e0 div TARGET_ETH_WEI + t0_window])
             (Suc n)
      else Some (best, n))"

declare scan_fee.simps [code]

definition search_fee ::
  "decimal \<Rightarrow> decimal \<Rightarrow> decimal \<Rightarrow> int \<Rightarrow> decimal \<Rightarrow> decimal \<Rightarrow> decimal \<Rightarrow> decimal
     \<Rightarrow> (error + Candidate_fee) option" where
  "search_fee min_e0_eth max_e0_eth step_e0_eth t0_window target_fee_eth w_token w_fee w_price =
     (let min_e0 = to_wei_fee min_e0_eth;
          max_e0 = to_wei_fee max_e0_eth;
          step_e0 = to_wei_fee step_e0_eth;
          target_fee_wei = to_wei_fee target_fee_eth
      in if min_e0 \<le> 0 then Some (Inl (ValueError ''min_e0_eth must be > 0''))
         else if max_e0 < min_e0 then Some (Inl (ValueError ''max_e0_eth must be >= min_e0_eth''))
         else if step_e0 \<le> 0 then Some (Inl (ValueError ''step_e0_eth must be > 0''))
         else if t0_window < 0 then Some (Inl (ValueError ''t0_window must be >= 0''))
         else if target_fee_wei \<le> 0 \<or> TARGET_ETH_WEI \<le> target_fee_wei
              then Some (Inl (ValueError ''target_fee_eth must be in (0, TARGET_ETH)''))
         else (case scan_fee target_fee_wei w_token w_fee w_price t0_window min_e0 max_e0 step_e0 None 0 of
                 None \<Rightarrow> None
               | Some (best, n) \<Rightarrow>
                   (case best of
                      None \<Rightarrow> Some (Inl (RuntimeError ''No valid candidate found in the provided range''))
                    | Some b \<Rightarrow> Some (Inr b))))"

section \<open>The points a scan visits\<close>

text \<open>
  The values that \<open>e0\<close> takes in the \<^verbatim>\<open>while\<close> loop when the step is positive, the pairs
  \<open>(e0, t0)\<close> that each script hands to its \<^verbatim>\<open>evaluate_candidate\<close>, in the order of the
  evaluation, and the shape shared by the two inner loop bodies: keep the best candidate so
  far unless the new one is better.
\<close>

function e0_points :: "int \<Rightarrow> int \<Rightarrow> int \<Rightarrow> int list" where
  "e0_points e0 max_e0 step_e0 =
     (if 0 < step_e0 \<and> e0 \<le> max_e0 then e0 # e0_points (e0 + step_e0) max_e0 step_e0 else [])"
  by pat_completeness auto
termination
  by (relation "measure (\<lambda>(e0, max_e0, step_e0). nat (max_e0 - e0 + 1))") auto

declare e0_points.simps [simp del]

definition floor_t0_of :: "int \<Rightarrow> int" where
  "floor_t0_of e0 = t0_real_numerator e0 div TARGET_ETH_WEI"

definition visited :: "(int \<Rightarrow> int list) \<Rightarrow> int \<Rightarrow> int \<Rightarrow> int \<Rightarrow> (int \<times> int) list" where
  "visited ord min_e0 max_e0 step_e0 =
     concat (map (\<lambda>e0. map (Pair e0) (ord (floor_t0_of e0))) (e0_points min_e0 max_e0 step_e0))"

definition visited_fee :: "int \<Rightarrow> int \<Rightarrow> int \<Rightarrow> int \<Rightarrow> (int \<times> int) list" where
  "visited_fee t0_window min_e0 max_e0 step_e0 =
     concat (map (\<lambda>e0. map (Pair e0) [floor_t0_of e0 - t0_window .. floor_t0_of e0 + t0_window])
               (e0_points min_e0 max_e0 step_e0))"

definition pick :: "('c \<Rightarrow> 'c \<Rightarrow> bool) \<Rightarrow> ('x \<Rightarrow> 'c option) \<Rightarrow> 'c option \<Rightarrow> 'x \<Rightarrow> 'c option" where
  "pick better ev best x =
     (case ev x of
        None \<Rightarrow> best
      | Some cand \<Rightarrow>
          (case best of None \<Rightarrow> Some cand
           | Some b \<Rightarrow> if better cand b then Some cand else Some b))"

definition better :: "Candidate \<Rightarrow> Candidate \<Rightarrow> bool" where
  "better cand b =
     (c_target_error cand < c_target_error b
      \<or> (c_target_error cand = c_target_error b \<and> c_e0 cand < c_e0 b))"

definition better_fee :: "Candidate_fee \<Rightarrow> Candidate_fee \<Rightarrow> bool" where
  "better_fee cand b = dec_less (f_score cand) (f_score b)"

text \<open>The two \<^verbatim>\<open>evaluate_candidate\<close> functions on a visited pair.\<close>

definition ev :: "int \<times> int \<Rightarrow> Candidate option" where
  "ev x = evaluate_candidate (fst x) (snd x)"

definition ev_fee :: "int \<Rightarrow> decimal \<Rightarrow> decimal \<Rightarrow> decimal \<Rightarrow> int \<times> int \<Rightarrow> Candidate_fee option" where
  "ev_fee target_fee_wei w_token w_fee w_price x =
     evaluate_candidate_fee (fst x) (snd x) target_fee_wei w_token w_fee w_price"

section \<open>Constants\<close>

lemma TARGET_ETH_WEI_eq: "TARGET_ETH_WEI = 8500000000000000000"
  by code_simp

text \<open>The graduation-fee script computes the same \<open>TARGET_ETH_WEI\<close> under its precision of 90.\<close>

lemma TARGET_ETH_WEI_prec_90: "to_wei_prec 90 TARGET_ETH = TARGET_ETH_WEI"
  by code_simp

lemma TARGET_FEE_WEI_eq: "TARGET_FEE_WEI = 500000000000000000"
  by code_simp

lemma TOTAL_SUPPLY_eq: "TOTAL_SUPPLY = 1000000000000000000000000000"
  by (simp add: TOTAL_SUPPLY_def WAD_def)

lemma TARGET_TOKENS_eq: "TARGET_TOKENS = 200000000000000000000000000"
  by (simp add: TARGET_TOKENS_def WAD_def)

section \<open>The loops as folds over the visited points\<close>

lemma e0_points_stop: "\<not> e0 \<le> max_e0 \<Longrightarrow> e0_points e0 max_e0 step_e0 = []"
  by (simp add: e0_points.simps)

lemma e0_points_go:
  "0 < step_e0 \<Longrightarrow> e0 \<le> max_e0
     \<Longrightarrow> e0_points e0 max_e0 step_e0 = e0 # e0_points (e0 + step_e0) max_e0 step_e0"
  by (subst e0_points.simps) simp

lemma length_e0_points:
  "0 < step_e0 \<Longrightarrow> length (e0_points e0 max_e0 step_e0) = nat ((max_e0 - e0) div step_e0 + 1)"
proof (induction e0 max_e0 step_e0 rule: e0_points.induct)
  case (1 e0 max_e0 step_e0)
  show ?case
  proof (cases "e0 \<le> max_e0")
    case True
    have "max_e0 - (e0 + step_e0) = (max_e0 - e0) + step_e0 * (- 1)"
      by simp
    then have "(max_e0 - (e0 + step_e0)) div step_e0 = ((max_e0 - e0) + step_e0 * (- 1)) div step_e0"
      by (rule arg_cong)
    also have "\<dots> = - 1 + (max_e0 - e0) div step_e0"
      using "1.prems" by (subst div_mult_self2) simp_all
    finally have shift: "(max_e0 - (e0 + step_e0)) div step_e0 = (max_e0 - e0) div step_e0 - 1"
      by simp
    have nonneg: "0 \<le> (max_e0 - e0) div step_e0"
      using True "1.prems" by (simp add: pos_imp_zdiv_nonneg_iff)
    show ?thesis
      using True "1.prems" "1.IH" shift nonneg
      by (simp add: e0_points_go nat_add_distrib)
  next
    case False
    then have "(max_e0 - e0) div step_e0 < 0"
      using "1.prems" by (simp add: div_neg_pos_less0)
    then show ?thesis
      using False by (simp add: e0_points_stop)
  qed
qed

lemma set_e0_points:
  "0 < step_e0 \<Longrightarrow>
     set (e0_points e0 max_e0 step_e0) = {e. \<exists>i::nat. e = e0 + int i * step_e0 \<and> e \<le> max_e0}"
proof (induction e0 max_e0 step_e0 rule: e0_points.induct)
  case (1 e0 max_e0 step_e0)
  show ?case
  proof (cases "e0 \<le> max_e0")
    case True
    have IH: "set (e0_points (e0 + step_e0) max_e0 step_e0)
                = {e. \<exists>i::nat. e = e0 + step_e0 + int i * step_e0 \<and> e \<le> max_e0}"
      using "1.IH" True "1.prems" by simp
    show ?thesis
    proof (rule set_eqI, rule iffI)
      fix e assume "e \<in> set (e0_points e0 max_e0 step_e0)"
      then have "e = e0 \<or> e \<in> set (e0_points (e0 + step_e0) max_e0 step_e0)"
        using True "1.prems" by (simp add: e0_points_go)
      then show "e \<in> {e. \<exists>i::nat. e = e0 + int i * step_e0 \<and> e \<le> max_e0}"
      proof
        assume "e = e0"
        then have "e = e0 + int 0 * step_e0 \<and> e \<le> max_e0" using True by simp
        then show ?thesis by blast
      next
        assume "e \<in> set (e0_points (e0 + step_e0) max_e0 step_e0)"
        then obtain i :: nat where i: "e = e0 + step_e0 + int i * step_e0" "e \<le> max_e0"
          using IH by auto
        then have "e = e0 + int (Suc i) * step_e0 \<and> e \<le> max_e0"
          by (simp add: algebra_simps)
        then show ?thesis by blast
      qed
    next
      fix e assume "e \<in> {e. \<exists>i::nat. e = e0 + int i * step_e0 \<and> e \<le> max_e0}"
      then obtain i :: nat where i: "e = e0 + int i * step_e0" "e \<le> max_e0" by auto
      show "e \<in> set (e0_points e0 max_e0 step_e0)"
      proof (cases i)
        case 0
        then show ?thesis using i True "1.prems" by (simp add: e0_points_go)
      next
        case (Suc j)
        then have "e = e0 + step_e0 + int j * step_e0" using i by (simp add: algebra_simps)
        then have "e \<in> set (e0_points (e0 + step_e0) max_e0 step_e0)"
          using IH i(2) by auto
        then show ?thesis using True "1.prems" by (simp add: e0_points_go)
      qed
    qed
  next
    case False
    have "\<And>i::nat. \<not> e0 + int i * step_e0 \<le> max_e0"
    proof -
      fix i :: nat
      have "0 \<le> int i * step_e0" using "1.prems" by simp
      then show "\<not> e0 + int i * step_e0 \<le> max_e0" using False by linarith
    qed
    then show ?thesis using False by (auto simp add: e0_points_stop)
  qed
qed

section \<open>Comparison of decimals\<close>

lemma dec_align_val: "m \<le> snd a \<Longrightarrow> of_int (dec_align a m) * 10 powi m = dec_val a"
proof -
  assume le: "m \<le> snd a"
  have "(10::rat) powi (snd a) = 10 powi (int (nat (snd a - m)) + m)"
    using le by simp
  also have "\<dots> = 10 powi (int (nat (snd a - m))) * 10 powi m"
    by (rule power_int_add) simp
  finally have "(10::rat) powi (snd a) = 10 ^ nat (snd a - m) * 10 powi m"
    by (simp only: power_int_of_nat)
  then show ?thesis
    by (simp add: dec_align_def dec_val_def)
qed

lemma dec_less_iff: "dec_less a b \<longleftrightarrow> dec_val a < dec_val b"
proof -
  define m where "m = min (snd a) (snd b)"
  have pos: "0 < (10::rat) powi m"
    by (simp add: zero_less_power_int)
  have a: "of_int (dec_align a m) * 10 powi m = dec_val a"
    by (rule dec_align_val) (simp add: m_def)
  have b: "of_int (dec_align b m) * 10 powi m = dec_val b"
    by (rule dec_align_val) (simp add: m_def)
  have "dec_less a b \<longleftrightarrow> dec_align a m < dec_align b m"
    by (simp add: dec_less_def m_def Let_def)
  also have "\<dots> \<longleftrightarrow> (of_int (dec_align a m) :: rat) * 10 powi m < of_int (dec_align b m) * 10 powi m"
    using pos by simp
  finally show ?thesis
    by (simp only: a b)
qed

section \<open>Keeping the best candidate\<close>

lemma pick_fold_None:
  "foldl (pick bt e) best xs = None \<longleftrightarrow> best = None \<and> (\<forall>x\<in>set xs. e x = None)"
  by (induction xs arbitrary: best) (auto simp add: pick_def split: option.splits)

lemma pick_fold_source:
  "foldl (pick bt e) best xs = Some r \<Longrightarrow> best = Some r \<or> (\<exists>x\<in>set xs. e x = Some r)"
proof (induction xs arbitrary: best)
  case Nil
  then show ?case by simp
next
  case (Cons x xs)
  from Cons.prems have "foldl (pick bt e) (pick bt e best x) xs = Some r" by simp
  from Cons.IH [OF this] show ?case
    by (auto simp add: pick_def split: option.splits if_splits)
qed

lemma pick_le:
  assumes "\<And>c b. bt c b \<Longrightarrow> le c b" and "\<And>c b. \<not> bt c b \<Longrightarrow> le b c" and "\<And>a. le a a"
    and "pick bt e best x = Some r"
  shows "(\<forall>b. best = Some b \<longrightarrow> le r b) \<and> (\<forall>c. e x = Some c \<longrightarrow> le r c)"
  using assms(4) assms(1-3)
  by (auto simp add: pick_def split: option.splits if_splits)

lemma pick_fold_le:
  assumes bt: "\<And>c b. bt c b \<Longrightarrow> le c b" and nbt: "\<And>c b. \<not> bt c b \<Longrightarrow> le b c"
    and refl: "\<And>a. le a a" and trans: "\<And>a b c. le a b \<Longrightarrow> le b c \<Longrightarrow> le a c"
  shows "foldl (pick bt e) best xs = Some r
           \<Longrightarrow> (\<forall>b. best = Some b \<longrightarrow> le r b) \<and> (\<forall>x\<in>set xs. \<forall>c. e x = Some c \<longrightarrow> le r c)"
proof (induction xs arbitrary: best)
  case Nil
  then show ?case by (simp add: refl)
next
  case (Cons x xs)
  from Cons.prems have run: "foldl (pick bt e) (pick bt e best x) xs = Some r" by simp
  from Cons.IH [OF run]
  have later: "\<forall>y\<in>set xs. \<forall>c. e y = Some c \<longrightarrow> le r c"
    and mid: "\<forall>b. pick bt e best x = Some b \<longrightarrow> le r b"
    by auto
  have first: "(\<forall>b. best = Some b \<longrightarrow> le r b) \<and> (\<forall>c. e x = Some c \<longrightarrow> le r c)"
  proof (cases "pick bt e best x")
    case None
    then show ?thesis by (auto simp add: pick_def split: option.splits if_splits)
  next
    case (Some m)
    from pick_le [of bt le e best x m, OF bt nbt refl Some]
    have "(\<forall>b. best = Some b \<longrightarrow> le m b) \<and> (\<forall>c. e x = Some c \<longrightarrow> le m c)" .
    moreover have "le r m" using mid Some by simp
    ultimately show ?thesis using trans by blast
  qed
  show ?case using first later by simp
qed

section \<open>The loops as folds\<close>

lemma try_t0_pick: "try_t0 e0 best t0 = pick better ev best (e0, t0)"
  by (simp add: try_t0_def pick_def better_def ev_def split: option.splits)

lemma foldl_try_t0: "foldl (try_t0 e0) best ts = foldl (pick better ev) best (map (Pair e0) ts)"
  by (induction ts arbitrary: best) (simp_all add: try_t0_pick)

lemma visited_go:
  "0 < step_e0 \<Longrightarrow> e0 \<le> max_e0 \<Longrightarrow>
     visited ord e0 max_e0 step_e0
       = map (Pair e0) (ord (floor_t0_of e0)) @ visited ord (e0 + step_e0) max_e0 step_e0"
  by (simp add: visited_def e0_points_go)

lemma visited_stop: "\<not> e0 \<le> max_e0 \<Longrightarrow> visited ord e0 max_e0 step_e0 = []"
  by (simp add: visited_def e0_points_stop)

lemma scan_fold:
  "0 < step_e0 \<Longrightarrow>
     scan ord e0 max_e0 step_e0 best n
       = Some (foldl (pick better ev) best (visited ord e0 max_e0 step_e0),
               n + length (e0_points e0 max_e0 step_e0))"
proof (induction e0 max_e0 step_e0 arbitrary: best n rule: e0_points.induct)
  case (1 e0 max_e0 step_e0)
  show ?case
  proof (cases "e0 \<le> max_e0")
    case True
    have "scan ord e0 max_e0 step_e0 best n
            = scan ord (e0 + step_e0) max_e0 step_e0
                (foldl (try_t0 e0) best (ord (floor_t0_of e0))) (Suc n)"
      using True by (subst scan.simps) (simp add: floor_t0_of_def)
    also have "\<dots> = Some (foldl (pick better ev) (foldl (try_t0 e0) best (ord (floor_t0_of e0)))
                              (visited ord (e0 + step_e0) max_e0 step_e0),
                            Suc n + length (e0_points (e0 + step_e0) max_e0 step_e0))"
      using "1.IH" True "1.prems" by simp
    finally show ?thesis
      using True "1.prems" by (simp add: visited_go e0_points_go foldl_try_t0)
  next
    case False
    then show ?thesis
      by (subst scan.simps) (simp add: visited_stop e0_points_stop)
  qed
qed

lemma try_t0_fee_pick:
  "try_t0_fee fee w_t w_f w_p e0 best t0 = pick better_fee (ev_fee fee w_t w_f w_p) best (e0, t0)"
  by (simp add: try_t0_fee_def pick_def better_fee_def ev_fee_def split: option.splits)

lemma foldl_try_t0_fee:
  "foldl (try_t0_fee fee w_t w_f w_p e0) best ts
     = foldl (pick better_fee (ev_fee fee w_t w_f w_p)) best (map (Pair e0) ts)"
  by (induction ts arbitrary: best) (simp_all add: try_t0_fee_pick)

lemma visited_fee_go:
  "0 < step_e0 \<Longrightarrow> e0 \<le> max_e0 \<Longrightarrow>
     visited_fee w e0 max_e0 step_e0
       = map (Pair e0) [floor_t0_of e0 - w .. floor_t0_of e0 + w]
           @ visited_fee w (e0 + step_e0) max_e0 step_e0"
  by (simp add: visited_fee_def e0_points_go)

lemma visited_fee_stop: "\<not> e0 \<le> max_e0 \<Longrightarrow> visited_fee w e0 max_e0 step_e0 = []"
  by (simp add: visited_fee_def e0_points_stop)

lemma scan_fee_fold:
  "0 < step_e0 \<Longrightarrow>
     scan_fee fee w_t w_f w_p w e0 max_e0 step_e0 best n
       = Some (foldl (pick better_fee (ev_fee fee w_t w_f w_p)) best (visited_fee w e0 max_e0 step_e0),
               n + length (e0_points e0 max_e0 step_e0))"
proof (induction e0 max_e0 step_e0 arbitrary: best n rule: e0_points.induct)
  case (1 e0 max_e0 step_e0)
  show ?case
  proof (cases "e0 \<le> max_e0")
    case True
    have "scan_fee fee w_t w_f w_p w e0 max_e0 step_e0 best n
            = scan_fee fee w_t w_f w_p w (e0 + step_e0) max_e0 step_e0
                (foldl (try_t0_fee fee w_t w_f w_p e0) best [floor_t0_of e0 - w .. floor_t0_of e0 + w])
                (Suc n)"
      using True by (subst scan_fee.simps) (simp add: floor_t0_of_def)
    also have "\<dots> = Some (foldl (pick better_fee (ev_fee fee w_t w_f w_p))
                              (foldl (try_t0_fee fee w_t w_f w_p e0) best
                                 [floor_t0_of e0 - w .. floor_t0_of e0 + w])
                              (visited_fee w (e0 + step_e0) max_e0 step_e0),
                            Suc n + length (e0_points (e0 + step_e0) max_e0 step_e0))"
      using "1.IH" True "1.prems" by simp
    finally show ?thesis
      using True "1.prems" by (simp add: visited_fee_go e0_points_go foldl_try_t0_fee)
  next
    case False
    then show ?thesis
      by (subst scan_fee.simps) (simp add: visited_fee_stop e0_points_stop)
  qed
qed

section \<open>What \<open>search\<close> returns\<close>

lemma set_visited:
  "0 < step_e0 \<Longrightarrow>
     set (visited ord min_e0 max_e0 step_e0)
       = {(e, t). (\<exists>i::nat. e = min_e0 + int i * step_e0 \<and> e \<le> max_e0)
                  \<and> t \<in> set (ord (floor_t0_of e))}"
  by (auto simp add: visited_def set_e0_points)

lemma set_visited_fee:
  "0 < step_e0 \<Longrightarrow>
     set (visited_fee w min_e0 max_e0 step_e0)
       = {(e, t). (\<exists>i::nat. e = min_e0 + int i * step_e0 \<and> e \<le> max_e0)
                  \<and> floor_t0_of e - w \<le> t \<and> t \<le> floor_t0_of e + w}"
  by (auto simp add: visited_fee_def set_e0_points)

lemma search_valid:
  assumes "0 < to_wei a" and "to_wei a \<le> to_wei b" and "0 < to_wei c"
  shows "search ord a b c =
           (case foldl (pick better ev) None (visited ord (to_wei a) (to_wei b) (to_wei c)) of
              None \<Rightarrow> Some (Inl (RuntimeError ''No valid candidate found in the provided range''))
            | Some r \<Rightarrow> Some (Inr r))"
  using assms by (simp add: search_def Let_def scan_fold split: option.splits)

lemma search_invalid:
  assumes "to_wei a \<le> 0 \<or> to_wei b < to_wei a \<or> to_wei c \<le> 0"
  shows "\<exists>msg. search ord a b c = Some (Inl (ValueError msg))"
  using assms by (auto simp add: search_def Let_def)

lemma search_fee_valid:
  assumes "0 < to_wei_fee a" and "to_wei_fee a \<le> to_wei_fee b" and "0 < to_wei_fee c"
    and "0 \<le> w" and "0 < to_wei_fee fee" and "to_wei_fee fee < TARGET_ETH_WEI"
  shows "search_fee a b c w fee w_t w_f w_p =
           (case foldl (pick better_fee (ev_fee (to_wei_fee fee) w_t w_f w_p)) None
                   (visited_fee w (to_wei_fee a) (to_wei_fee b) (to_wei_fee c)) of
              None \<Rightarrow> Some (Inl (RuntimeError ''No valid candidate found in the provided range''))
            | Some r \<Rightarrow> Some (Inr r))"
  using assms by (simp add: search_fee_def Let_def scan_fee_fold split: option.splits)

lemma search_fee_invalid:
  assumes "to_wei_fee a \<le> 0 \<or> to_wei_fee b < to_wei_fee a \<or> to_wei_fee c \<le> 0 \<or> w < 0
           \<or> to_wei_fee fee \<le> 0 \<or> TARGET_ETH_WEI \<le> to_wei_fee fee"
  shows "\<exists>msg. search_fee a b c w fee w_t w_f w_p = Some (Inl (ValueError msg))"
  using assms by (auto simp add: search_fee_def Let_def)

lemma search_Inr_valid:
  "search ord a b c = Some (Inr r) \<Longrightarrow> 0 < to_wei a \<and> to_wei a \<le> to_wei b \<and> 0 < to_wei c"
  using search_invalid [of a b c ord] by fastforce

lemma search_fee_Inr_valid:
  "search_fee a b c w fee w_t w_f w_p = Some (Inr r) \<Longrightarrow>
     0 < to_wei_fee a \<and> to_wei_fee a \<le> to_wei_fee b \<and> 0 < to_wei_fee c \<and> 0 \<le> w
     \<and> 0 < to_wei_fee fee \<and> to_wei_fee fee < TARGET_ETH_WEI"
  using search_fee_invalid [of a b c w fee w_t w_f w_p] by fastforce

lemma search_Inr_fold:
  assumes "search ord a b c = Some (Inr r)"
  shows "foldl (pick better ev) None (visited ord (to_wei a) (to_wei b) (to_wei c)) = Some r"
proof -
  from search_Inr_valid [OF assms]
  have v: "0 < to_wei a" "to_wei a \<le> to_wei b" "0 < to_wei c" by auto
  show ?thesis
    using assms unfolding search_valid [OF v] by (simp split: option.splits)
qed

lemma search_fee_Inr_fold:
  assumes "search_fee a b c w fee w_t w_f w_p = Some (Inr r)"
  shows "foldl (pick better_fee (ev_fee (to_wei_fee fee) w_t w_f w_p)) None
           (visited_fee w (to_wei_fee a) (to_wei_fee b) (to_wei_fee c)) = Some r"
proof -
  from search_fee_Inr_valid [OF assms]
  have v: "0 < to_wei_fee a" "to_wei_fee a \<le> to_wei_fee b" "0 < to_wei_fee c" "0 \<le> w"
    "0 < to_wei_fee fee" "to_wei_fee fee < TARGET_ETH_WEI" by auto
  show ?thesis
    using assms unfolding search_fee_valid [OF v] by (simp split: option.splits)
qed

lemma search_Inr_source:
  assumes "search ord a b c = Some (Inr r)"
  shows "\<exists>x\<in>set (visited ord (to_wei a) (to_wei b) (to_wei c)). ev x = Some r"
  using pick_fold_source [OF search_Inr_fold [OF assms]] by simp

lemma search_fee_Inr_source:
  assumes "search_fee a b c w fee w_t w_f w_p = Some (Inr r)"
  shows "\<exists>x\<in>set (visited_fee w (to_wei_fee a) (to_wei_fee b) (to_wei_fee c)).
           ev_fee (to_wei_fee fee) w_t w_f w_p x = Some r"
  using pick_fold_source [OF search_fee_Inr_fold [OF assms]] by simp

section \<open>The zero-ETH identity\<close>

lemma reserves_at_zero:
  "e0 \<noteq> 0 \<Longrightarrow> reserves_from_eth ((TOTAL_SUPPLY + t0) * e0) t0 e0 0 = TOTAL_SUPPLY"
  by (simp add: reserves_from_eth_def)

lemma evaluate_candidate_Some:
  assumes "evaluate_candidate e0 t0 = Some c"
  shows "0 < e0" and "0 \<le> t0" and "c_e0 c = e0" and "c_t0 c = t0"
    and "c_k c = (TOTAL_SUPPLY + t0) * e0" and "c_t_at_zero c = TOTAL_SUPPLY"
    and "c_t_at_target c = reserves_from_eth ((TOTAL_SUPPLY + t0) * e0) t0 e0 TARGET_ETH_WEI"
    and "c_target_error c = \<bar>c_t_at_target c - TARGET_TOKENS\<bar>"
  using assms
  by (auto simp add: evaluate_candidate_def Let_def reserves_at_zero split: if_splits)

lemma evaluate_candidate_defined:
  "0 < e0 \<Longrightarrow> 0 \<le> t0 \<Longrightarrow> \<exists>c. evaluate_candidate e0 t0 = Some c"
  by (simp add: evaluate_candidate_def Let_def reserves_at_zero)

lemma evaluate_candidate_fee_Some:
  assumes "evaluate_candidate_fee e0 t0 fee w_t w_f w_p = Some c"
  shows "0 < e0" and "0 \<le> t0" and "f_e0 c = e0" and "f_t0 c = t0"
    and "f_k c = (TOTAL_SUPPLY + t0) * e0" and "f_t_at_zero c = TOTAL_SUPPLY"
    and "f_t_at_grad c = reserves_from_eth ((TOTAL_SUPPLY + t0) * e0) t0 e0 TARGET_ETH_WEI"
    and "f_token_error_wei c = \<bar>f_t_at_grad c - TARGET_TOKENS\<bar>"
  using assms
  by (auto simp add: evaluate_candidate_fee_def Let_def reserves_at_zero split: if_splits)

section \<open>Claims about the returned candidate and the errors raised\<close>

lemma evaluate_candidate_fee_None_iff:
  assumes "0 < e0" and "0 \<le> t0"
  shows "evaluate_candidate_fee e0 t0 fee w_t w_f w_p = None \<longleftrightarrow>
           reserves_from_eth ((TOTAL_SUPPLY + t0) * e0) t0 e0 TARGET_ETH_WEI \<le> 0
           \<or> TARGET_ETH_WEI - fee \<le> 0
           \<or> dec_is_zero (dec_div 90 (dec_of_int ((TARGET_ETH_WEI + e0) ^ 2))
                             (dec_of_int ((TOTAL_SUPPLY + t0) * e0)))"
  using assms by (auto simp add: evaluate_candidate_fee_def Let_def reserves_at_zero)

text \<open>
  C9. For \<open>e0 > 0\<close> and \<open>t0 \<ge> 0\<close> the reserves at zero ETH of the curve with
  \<open>k = (TOTAL_SUPPLY + t0) * e0\<close> are exactly \<open>TOTAL_SUPPLY\<close>, so the test
  \<^verbatim>\<open>t_at_zero != TOTAL_SUPPLY\<close> never rejects: the first script's \<^verbatim>\<open>evaluate_candidate\<close>
  returns a candidate for every such pair, and the graduation-fee script's returns \<^verbatim>\<open>None\<close>
  for such a pair only through one of its three later tests.
\<close>

theorem zero_eth_identity_never_rejects:
  assumes "0 < e0" and "0 \<le> t0"
  shows "reserves_from_eth ((TOTAL_SUPPLY + t0) * e0) t0 e0 0 = TOTAL_SUPPLY
         \<and> ((TOTAL_SUPPLY + t0) * e0) div e0 - t0 = TOTAL_SUPPLY
         \<and> (\<exists>c. evaluate_candidate e0 t0 = Some c)
         \<and> (evaluate_candidate_fee e0 t0 fee w_t w_f w_p = None \<longleftrightarrow>
              reserves_from_eth ((TOTAL_SUPPLY + t0) * e0) t0 e0 TARGET_ETH_WEI \<le> 0
              \<or> TARGET_ETH_WEI - fee \<le> 0
              \<or> dec_is_zero (dec_div 90 (dec_of_int ((TARGET_ETH_WEI + e0) ^ 2))
                                (dec_of_int ((TOTAL_SUPPLY + t0) * e0))))"
  using assms evaluate_candidate_defined [of e0 t0] reserves_at_zero [of e0 t0]
    evaluate_candidate_fee_None_iff [of e0 t0 fee w_t w_f w_p]
  by simp

theorem zero_eth_identity_never_rejects_witness:
  "(0::int) < 3000000000000000000 \<and> (0::int) \<le> 5
   \<and> reserves_from_eth ((TOTAL_SUPPLY + 5) * 3000000000000000000) 5 3000000000000000000 0
       = TOTAL_SUPPLY
   \<and> (\<exists>c. evaluate_candidate 3000000000000000000 5 = Some c)"
  using zero_eth_identity_never_rejects [of 3000000000000000000 5]
  by simp

text \<open>
  C1. A candidate returned by \<open>search\<close>, in either script, has token reserves at zero ETH
  equal to the total supply: its field \<open>t_at_zero\<close> and the reserves formula
  \<open>k // (0 + e0) - t0\<close> on its fields both equal \<open>TOTAL_SUPPLY = 10\<^sup>9 * 10\<^sup>1\<^sup>8\<close>.
\<close>

theorem search_returns_zero_eth_identity:
  "(search ord min_e0_eth max_e0_eth step_e0_eth = Some (Inr c) \<longrightarrow>
      c_t_at_zero c = TOTAL_SUPPLY
      \<and> reserves_from_eth (c_k c) (c_t0 c) (c_e0 c) 0 = TOTAL_SUPPLY
      \<and> c_k c div (0 + c_e0 c) - c_t0 c = 10 ^ 9 * 10 ^ 18)
   \<and> (search_fee min_e0_eth max_e0_eth step_e0_eth t0_window target_fee_eth w_token w_fee w_price
         = Some (Inr d) \<longrightarrow>
      f_t_at_zero d = TOTAL_SUPPLY
      \<and> reserves_from_eth (f_k d) (f_t0 d) (f_e0 d) 0 = TOTAL_SUPPLY
      \<and> f_k d div (0 + f_e0 d) - f_t0 d = 10 ^ 9 * 10 ^ 18)"
proof (intro conjI impI)
  assume "search ord min_e0_eth max_e0_eth step_e0_eth = Some (Inr c)"
  from search_Inr_source [OF this] obtain x where "ev x = Some c" by blast
  then have e: "evaluate_candidate (fst x) (snd x) = Some c" by (simp add: ev_def)
  note f = evaluate_candidate_Some [OF e]
  show "c_t_at_zero c = TOTAL_SUPPLY" by (rule f)
  have "reserves_from_eth (c_k c) (c_t0 c) (c_e0 c) 0 = TOTAL_SUPPLY"
    using f(1) by (simp add: f(3-5) reserves_at_zero)
  then show "reserves_from_eth (c_k c) (c_t0 c) (c_e0 c) 0 = TOTAL_SUPPLY"
    and "c_k c div (0 + c_e0 c) - c_t0 c = 10 ^ 9 * 10 ^ 18"
    by (simp_all add: reserves_from_eth_def TOTAL_SUPPLY_eq)
next
  assume "search_fee min_e0_eth max_e0_eth step_e0_eth t0_window target_fee_eth w_token w_fee
            w_price = Some (Inr d)"
  from search_fee_Inr_source [OF this] obtain x
    where "ev_fee (to_wei_fee target_fee_eth) w_token w_fee w_price x = Some d" by blast
  then have e: "evaluate_candidate_fee (fst x) (snd x) (to_wei_fee target_fee_eth) w_token w_fee
                  w_price = Some d"
    by (simp add: ev_fee_def)
  note f = evaluate_candidate_fee_Some [OF e]
  show "f_t_at_zero d = TOTAL_SUPPLY" by (rule f)
  have "reserves_from_eth (f_k d) (f_t0 d) (f_e0 d) 0 = TOTAL_SUPPLY"
    using f(1) by (simp add: f(3-5) reserves_at_zero)
  then show "reserves_from_eth (f_k d) (f_t0 d) (f_e0 d) 0 = TOTAL_SUPPLY"
    and "f_k d div (0 + f_e0 d) - f_t0 d = 10 ^ 9 * 10 ^ 18"
    by (simp_all add: reserves_from_eth_def TOTAL_SUPPLY_eq)
qed

text \<open>
  C6. In both scripts \<open>search\<close> raises a \<^verbatim>\<open>ValueError\<close>, which it does before the scan
  starts, exactly when one of its argument checks fails: the minimum bound in wei is not
  positive, the maximum is below the minimum, the step in wei is not positive, or, in the
  graduation-fee script, the window is negative or the target fee in wei is outside the
  open interval from 0 to \<open>TARGET_ETH_WEI\<close>.
\<close>

theorem search_raises_ValueError_iff:
  "((\<exists>msg. search ord min_e0_eth max_e0_eth step_e0_eth = Some (Inl (ValueError msg))) \<longleftrightarrow>
      (to_wei min_e0_eth \<le> 0 \<or> to_wei max_e0_eth < to_wei min_e0_eth \<or> to_wei step_e0_eth \<le> 0))
   \<and> ((\<exists>msg. search_fee min_e0_eth max_e0_eth step_e0_eth t0_window target_fee_eth
                 w_token w_fee w_price = Some (Inl (ValueError msg))) \<longleftrightarrow>
      (to_wei_fee min_e0_eth \<le> 0 \<or> to_wei_fee max_e0_eth < to_wei_fee min_e0_eth
       \<or> to_wei_fee step_e0_eth \<le> 0 \<or> t0_window < 0
       \<or> to_wei_fee target_fee_eth \<le> 0 \<or> TARGET_ETH_WEI \<le> to_wei_fee target_fee_eth))"
proof (intro conjI iffI)
  assume "\<exists>msg. search ord min_e0_eth max_e0_eth step_e0_eth = Some (Inl (ValueError msg))"
  then obtain msg where r: "search ord min_e0_eth max_e0_eth step_e0_eth = Some (Inl (ValueError msg))"
    by blast
  show "to_wei min_e0_eth \<le> 0 \<or> to_wei max_e0_eth < to_wei min_e0_eth \<or> to_wei step_e0_eth \<le> 0"
  proof (rule ccontr)
    assume "\<not> ?thesis"
    then have v: "0 < to_wei min_e0_eth" "to_wei min_e0_eth \<le> to_wei max_e0_eth"
      "0 < to_wei step_e0_eth" by auto
    show False using r unfolding search_valid [OF v] by (simp split: option.splits)
  qed
next
  assume "to_wei min_e0_eth \<le> 0 \<or> to_wei max_e0_eth < to_wei min_e0_eth \<or> to_wei step_e0_eth \<le> 0"
  then show "\<exists>msg. search ord min_e0_eth max_e0_eth step_e0_eth = Some (Inl (ValueError msg))"
    by (rule search_invalid)
next
  assume "\<exists>msg. search_fee min_e0_eth max_e0_eth step_e0_eth t0_window target_fee_eth
                  w_token w_fee w_price = Some (Inl (ValueError msg))"
  then obtain msg where r: "search_fee min_e0_eth max_e0_eth step_e0_eth t0_window target_fee_eth
                  w_token w_fee w_price = Some (Inl (ValueError msg))"
    by blast
  show "to_wei_fee min_e0_eth \<le> 0 \<or> to_wei_fee max_e0_eth < to_wei_fee min_e0_eth
       \<or> to_wei_fee step_e0_eth \<le> 0 \<or> t0_window < 0
       \<or> to_wei_fee target_fee_eth \<le> 0 \<or> TARGET_ETH_WEI \<le> to_wei_fee target_fee_eth"
  proof (rule ccontr)
    assume "\<not> ?thesis"
    then have v: "0 < to_wei_fee min_e0_eth" "to_wei_fee min_e0_eth \<le> to_wei_fee max_e0_eth"
      "0 < to_wei_fee step_e0_eth" "0 \<le> t0_window" "0 < to_wei_fee target_fee_eth"
      "to_wei_fee target_fee_eth < TARGET_ETH_WEI" by auto
    show False using r unfolding search_fee_valid [OF v] by (simp split: option.splits)
  qed
next
  assume "to_wei_fee min_e0_eth \<le> 0 \<or> to_wei_fee max_e0_eth < to_wei_fee min_e0_eth
       \<or> to_wei_fee step_e0_eth \<le> 0 \<or> t0_window < 0
       \<or> to_wei_fee target_fee_eth \<le> 0 \<or> TARGET_ETH_WEI \<le> to_wei_fee target_fee_eth"
  then show "\<exists>msg. search_fee min_e0_eth max_e0_eth step_e0_eth t0_window target_fee_eth
                  w_token w_fee w_price = Some (Inl (ValueError msg))"
    by (rule search_fee_invalid)
qed

section \<open>The error of the returned candidate\<close>

lemma search_Inr_le:
  assumes "search ord a b c = Some (Inr r)"
    and "x \<in> set (visited ord (to_wei a) (to_wei b) (to_wei c))"
    and "ev x = Some cand"
  shows "c_target_error r \<le> c_target_error cand"
proof -
  define le where "le = (\<lambda>(c::Candidate) (b::Candidate). c_target_error c \<le> c_target_error b)"
  have "(\<forall>b. None = Some b \<longrightarrow> le r b)
        \<and> (\<forall>x\<in>set (visited ord (to_wei a) (to_wei b) (to_wei c)).
              \<forall>c. ev x = Some c \<longrightarrow> le r c)"
  proof (rule pick_fold_le [of better le])
    show "foldl (pick better ev) None (visited ord (to_wei a) (to_wei b) (to_wei c)) = Some r"
      by (rule search_Inr_fold [OF assms(1)])
  qed (auto simp add: better_def le_def)
  then have "le r cand" using assms(2,3) by blast
  then show ?thesis by (simp add: le_def)
qed

lemma search_fee_Inr_le:
  assumes "search_fee a b c w fee w_t w_f w_p = Some (Inr r)"
    and "x \<in> set (visited_fee w (to_wei_fee a) (to_wei_fee b) (to_wei_fee c))"
    and "ev_fee (to_wei_fee fee) w_t w_f w_p x = Some cand"
  shows "dec_val (f_score r) \<le> dec_val (f_score cand)"
proof -
  define le where "le = (\<lambda>(c::Candidate_fee) (b::Candidate_fee). dec_val (f_score c) \<le> dec_val (f_score b))"
  have "(\<forall>b. None = Some b \<longrightarrow> le r b)
        \<and> (\<forall>x\<in>set (visited_fee w (to_wei_fee a) (to_wei_fee b) (to_wei_fee c)).
              \<forall>c. ev_fee (to_wei_fee fee) w_t w_f w_p x = Some c \<longrightarrow> le r c)"
  proof (rule pick_fold_le [of better_fee le])
    show "foldl (pick better_fee (ev_fee (to_wei_fee fee) w_t w_f w_p)) None
            (visited_fee w (to_wei_fee a) (to_wei_fee b) (to_wei_fee c)) = Some r"
      by (rule search_fee_Inr_fold [OF assms(1)])
  qed (auto simp add: better_fee_def dec_less_iff le_def)
  then have "le r cand" using assms(2,3) by blast
  then show ?thesis by (simp add: le_def)
qed

text \<open>
  In the first script the candidate at \<open>t0 = floor_t0\<close> meets the target exactly, and a scan
  point that has any valid candidate has \<open>floor_t0 \<ge> 0\<close>.
\<close>

lemma floor_t0_of_bounds:
  "floor_t0_of e0 * 8500000000000000000
     \<le> 800000000000000000000000000 * e0 - 1700000000000000000000000000000000000000000000"
  "800000000000000000000000000 * e0 - 1700000000000000000000000000000000000000000000
     < (floor_t0_of e0 + 1) * 8500000000000000000"
proof -
  define num where "num = 800000000000000000000000000 * e0 - 1700000000000000000000000000000000000000000000"
  have f: "floor_t0_of e0 = num div 8500000000000000000"
    by (simp add: floor_t0_of_def t0_real_numerator_def TOTAL_SUPPLY_eq TARGET_TOKENS_eq
        TARGET_ETH_WEI_eq num_def)
  have split: "num = num div 8500000000000000000 * 8500000000000000000 + num mod 8500000000000000000"
    by simp
  have "0 \<le> num mod 8500000000000000000"
    by simp
  with split have "num div 8500000000000000000 * 8500000000000000000 \<le> num"
    by linarith
  then show "floor_t0_of e0 * 8500000000000000000
     \<le> 800000000000000000000000000 * e0 - 1700000000000000000000000000000000000000000000"
    by (simp only: f num_def)
  have "num mod 8500000000000000000 < 8500000000000000000"
    by simp
  with split have "num < num div 8500000000000000000 * 8500000000000000000 + 8500000000000000000"
    by linarith
  then have "num < (num div 8500000000000000000 + 1) * 8500000000000000000"
    by (simp add: distrib_right)
  then show "800000000000000000000000000 * e0 - 1700000000000000000000000000000000000000000000
     < (floor_t0_of e0 + 1) * 8500000000000000000"
    by (simp only: f num_def)
qed

lemma floor_t0_of_nonneg:
  assumes "- 2 \<le> floor_t0_of e0"
  shows "0 \<le> floor_t0_of e0"
proof -
  have "- 2 * 8500000000000000000 \<le> floor_t0_of e0 * 8500000000000000000"
    using assms by simp
  with floor_t0_of_bounds(1) [of e0]
  have "- 17000000000000000000
          \<le> 800000000000000000000000000 * e0 - 1700000000000000000000000000000000000000000000"
    by linarith
  then have "2125000000000000000 \<le> e0"
    by linarith
  then have "0 \<le> 800000000000000000000000000 * e0 - 1700000000000000000000000000000000000000000000"
    by linarith
  then have "0 < (floor_t0_of e0 + 1) * 8500000000000000000"
    using floor_t0_of_bounds(2) [of e0] by linarith
  then show ?thesis by simp
qed

lemma target_hit_at_floor:
  assumes "0 < e0"
  shows "reserves_from_eth ((TOTAL_SUPPLY + floor_t0_of e0) * e0) (floor_t0_of e0) e0 TARGET_ETH_WEI
           = TARGET_TOKENS"
proof -
  define f where "f = floor_t0_of e0"
  define r where "r = 800000000000000000000000000 * e0
                        - 1700000000000000000000000000000000000000000000
                        - f * 8500000000000000000"
  have lo: "0 \<le> r" and hi: "r < 8500000000000000000"
    using floor_t0_of_bounds [of e0] by (simp_all add: r_def f_def algebra_simps)
  have eq: "(1000000000000000000000000000 + f) * e0
              = (8500000000000000000 + e0) * (200000000000000000000000000 + f) + r"
    by (simp add: r_def algebra_simps)
  have "((1000000000000000000000000000 + f) * e0) div (8500000000000000000 + e0)
          = 200000000000000000000000000 + f"
  proof (rule int_div_pos_eq [OF eq lo])
    show "r < 8500000000000000000 + e0" using hi assms by linarith
  qed
  then show ?thesis
    by (simp add: reserves_from_eth_def TOTAL_SUPPLY_eq TARGET_TOKENS_eq TARGET_ETH_WEI_eq
        f_def [symmetric] add.commute)
qed

lemma error_zero_at_floor:
  assumes "0 < e0" and "0 \<le> floor_t0_of e0"
  shows "\<exists>c. evaluate_candidate e0 (floor_t0_of e0) = Some c \<and> c_target_error c = 0"
proof -
  from evaluate_candidate_defined [OF assms] obtain c
    where c: "evaluate_candidate e0 (floor_t0_of e0) = Some c" by blast
  from evaluate_candidate_Some(7,8) [OF c] target_hit_at_floor [OF assms(1)]
  have "c_target_error c = 0" by simp
  with c show ?thesis by blast
qed

lemma search_error_zero:
  assumes ok: "set_order_ok ord" and ret: "search ord a b c = Some (Inr r)"
  shows "c_target_error r = 0"
proof -
  from search_Inr_source [OF ret] obtain x
    where x: "x \<in> set (visited ord (to_wei a) (to_wei b) (to_wei c))" and ex: "ev x = Some r"
    by blast
  from search_Inr_valid [OF ret] have st: "0 < to_wei c" by simp
  obtain e t where xe: "x = (e, t)" by (cases x)
  from x have grid: "\<exists>i::nat. e = to_wei a + int i * to_wei c \<and> e \<le> to_wei b"
    and t: "t \<in> set (ord (floor_t0_of e))"
    by (simp_all add: set_visited [OF st] xe)
  from ex have ec: "evaluate_candidate e t = Some r" by (simp add: ev_def xe)
  from evaluate_candidate_Some(1,2) [OF ec] have pos: "0 < e" "0 \<le> t" .
  from ok t have "t \<in> {floor_t0_of e - 2, floor_t0_of e - 1, floor_t0_of e,
                        floor_t0_of e + 1, floor_t0_of e + 2}"
    by (simp add: set_order_ok_def)
  with pos(2) have "- 2 \<le> floor_t0_of e" by auto
  then have f0: "0 \<le> floor_t0_of e" by (rule floor_t0_of_nonneg)
  from error_zero_at_floor [OF pos(1) f0] obtain z
    where z: "evaluate_candidate e (floor_t0_of e) = Some z" "c_target_error z = 0" by blast
  from ok have "floor_t0_of e \<in> set (ord (floor_t0_of e))"
    by (simp add: set_order_ok_def)
  with grid have "(e, floor_t0_of e) \<in> set (visited ord (to_wei a) (to_wei b) (to_wei c))"
    by (simp add: set_visited [OF st])
  from search_Inr_le [OF ret this, of z] z have "c_target_error r \<le> 0"
    by (simp add: ev_def)
  moreover have "0 \<le> c_target_error r"
    using evaluate_candidate_Some(8) [OF ec] by simp
  ultimately show ?thesis by simp
qed

section \<open>Finer steps and wider windows\<close>

lemma e0_points_refine:
  assumes "0 < s'" and "s = s' * m" and "0 < s"
  shows "set (e0_points e0 mx s) \<subseteq> set (e0_points e0 mx s')"
proof
  fix e assume "e \<in> set (e0_points e0 mx s)"
  then obtain i :: nat where i: "e = e0 + int i * s" "e \<le> mx"
    by (auto simp add: set_e0_points [OF assms(3)])
  have "0 < m" using assms by (simp add: zero_less_mult_iff)
  then have "int i * m = int (i * nat m)" by simp
  then have "e = e0 + int (i * nat m) * s'"
    using i(1) assms(2) by (simp add: algebra_simps)
  with i(2) have "\<exists>j::nat. e = e0 + int j * s' \<and> e \<le> mx"
    by blast
  then show "e \<in> set (e0_points e0 mx s')"
    by (simp add: set_e0_points [OF assms(1)])
qed

lemma visited_fee_refine:
  assumes "0 < s'" and "s = s' * m" and "0 < s"
  shows "set (visited_fee w e0 mx s) \<subseteq> set (visited_fee w e0 mx s')"
  using e0_points_refine [OF assms, of e0 mx] by (auto simp add: visited_fee_def)

lemma visited_fee_widen:
  assumes "w \<le> w'"
  shows "set (visited_fee w e0 mx s) \<subseteq> set (visited_fee w' e0 mx s)"
  using assms by (auto simp add: visited_fee_def)

lemma search_fee_superset:
  assumes ret: "search_fee a b s w fee w_t w_f w_p = Some (Inr d)"
    and valid': "0 < to_wei_fee s'" "0 \<le> w'"
    and sub: "set (visited_fee w (to_wei_fee a) (to_wei_fee b) (to_wei_fee s))
                \<subseteq> set (visited_fee w' (to_wei_fee a) (to_wei_fee b) (to_wei_fee s'))"
  shows "\<exists>d'. search_fee a b s' w' fee w_t w_f w_p = Some (Inr d')
               \<and> dec_val (f_score d') \<le> dec_val (f_score d)"
proof -
  from search_fee_Inr_valid [OF ret]
  have v: "0 < to_wei_fee a" "to_wei_fee a \<le> to_wei_fee b" "0 < to_wei_fee fee"
    "to_wei_fee fee < TARGET_ETH_WEI" by auto
  from search_fee_Inr_source [OF ret] obtain x
    where x: "x \<in> set (visited_fee w (to_wei_fee a) (to_wei_fee b) (to_wei_fee s))"
      and ex: "ev_fee (to_wei_fee fee) w_t w_f w_p x = Some d" by blast
  from x sub have x': "x \<in> set (visited_fee w' (to_wei_fee a) (to_wei_fee b) (to_wei_fee s'))"
    by blast
  have "foldl (pick better_fee (ev_fee (to_wei_fee fee) w_t w_f w_p)) None
          (visited_fee w' (to_wei_fee a) (to_wei_fee b) (to_wei_fee s')) \<noteq> None"
    using x' ex by (auto simp add: pick_fold_None)
  then obtain d' where d': "search_fee a b s' w' fee w_t w_f w_p = Some (Inr d')"
    unfolding search_fee_valid [OF v(1,2) valid'(1,2) v(3,4)] by auto
  from search_fee_Inr_le [OF d' x' ex] d' show ?thesis by blast
qed

section \<open>Claims about the scan\<close>

lemma set_order_ok_ascending: "set_order_ok ascending"
  by (auto simp add: set_order_ok_def ascending_def)

lemma set_order_ok_length: "set_order_ok ord \<Longrightarrow> length (ord f) = 5"
proof -
  assume ok: "set_order_ok ord"
  then have "distinct (ord f)" and s: "set (ord f) = {f - 2, f - 1, f, f + 1, f + 2}"
    by (simp_all add: set_order_ok_def)
  then have "length (ord f) = card {f - 2, f - 1, f, f + 1, f + 2}"
    by (simp add: distinct_card [symmetric])
  also have "\<dots> = 5" by simp
  finally show ?thesis .
qed

text \<open>
  C7. With valid arguments, \<open>search\<close> raises the \<^verbatim>\<open>RuntimeError\<close> exactly when
  \<^verbatim>\<open>evaluate_candidate\<close> returns \<^verbatim>\<open>None\<close> for every pair \<open>(e0, t0)\<close> the scan visits, and it
  returns a candidate exactly when some visited pair has one. The visited \<open>e0\<close> are
  \<open>min_e0 + i * step_e0 \<le> max_e0\<close>; the visited \<open>t0\<close> are the five values around \<open>floor_t0\<close>
  in the first script and \<open>floor_t0 - t0_window, \<dots>, floor_t0 + t0_window\<close> in the second.
\<close>

theorem search_raises_RuntimeError_iff:
  "(0 < to_wei a \<and> to_wei a \<le> to_wei b \<and> 0 < to_wei c \<longrightarrow>
      ((search ord a b c = Some (Inl (RuntimeError ''No valid candidate found in the provided range'')))
         \<longleftrightarrow> (\<forall>(i::nat) t0. to_wei a + int i * to_wei c \<le> to_wei b
                  \<and> t0 \<in> set (ord (floor_t0_of (to_wei a + int i * to_wei c)))
                \<longrightarrow> evaluate_candidate (to_wei a + int i * to_wei c) t0 = None))
      \<and> ((\<exists>r. search ord a b c = Some (Inr r))
         \<longleftrightarrow> (\<exists>(i::nat) t0. to_wei a + int i * to_wei c \<le> to_wei b
                  \<and> t0 \<in> set (ord (floor_t0_of (to_wei a + int i * to_wei c)))
                  \<and> evaluate_candidate (to_wei a + int i * to_wei c) t0 \<noteq> None)))
   \<and> (0 < to_wei_fee a \<and> to_wei_fee a \<le> to_wei_fee b \<and> 0 < to_wei_fee c \<and> 0 \<le> w
        \<and> 0 < to_wei_fee fee \<and> to_wei_fee fee < TARGET_ETH_WEI \<longrightarrow>
      ((search_fee a b c w fee w_t w_f w_p
          = Some (Inl (RuntimeError ''No valid candidate found in the provided range'')))
         \<longleftrightarrow> (\<forall>(i::nat) t0. to_wei_fee a + int i * to_wei_fee c \<le> to_wei_fee b
                  \<and> floor_t0_of (to_wei_fee a + int i * to_wei_fee c) - w \<le> t0
                  \<and> t0 \<le> floor_t0_of (to_wei_fee a + int i * to_wei_fee c) + w
                \<longrightarrow> evaluate_candidate_fee (to_wei_fee a + int i * to_wei_fee c) t0
                      (to_wei_fee fee) w_t w_f w_p = None))
      \<and> ((\<exists>r. search_fee a b c w fee w_t w_f w_p = Some (Inr r))
         \<longleftrightarrow> (\<exists>(i::nat) t0. to_wei_fee a + int i * to_wei_fee c \<le> to_wei_fee b
                  \<and> floor_t0_of (to_wei_fee a + int i * to_wei_fee c) - w \<le> t0
                  \<and> t0 \<le> floor_t0_of (to_wei_fee a + int i * to_wei_fee c) + w
                  \<and> evaluate_candidate_fee (to_wei_fee a + int i * to_wei_fee c) t0
                      (to_wei_fee fee) w_t w_f w_p \<noteq> None)))"
proof (intro conjI impI)
  assume v: "0 < to_wei a \<and> to_wei a \<le> to_wei b \<and> 0 < to_wei c"
  then have v': "0 < to_wei a" "to_wei a \<le> to_wei b" "0 < to_wei c" by auto
  let ?xs = "visited ord (to_wei a) (to_wei b) (to_wei c)"
  have none: "foldl (pick better ev) None ?xs = None
                \<longleftrightarrow> (\<forall>(i::nat) t0. to_wei a + int i * to_wei c \<le> to_wei b
                      \<and> t0 \<in> set (ord (floor_t0_of (to_wei a + int i * to_wei c)))
                    \<longrightarrow> evaluate_candidate (to_wei a + int i * to_wei c) t0 = None)"
    by (auto simp add: pick_fold_None set_visited [OF v'(3)] ev_def)
  show "(search ord a b c = Some (Inl (RuntimeError ''No valid candidate found in the provided range'')))
         \<longleftrightarrow> (\<forall>(i::nat) t0. to_wei a + int i * to_wei c \<le> to_wei b
                  \<and> t0 \<in> set (ord (floor_t0_of (to_wei a + int i * to_wei c)))
                \<longrightarrow> evaluate_candidate (to_wei a + int i * to_wei c) t0 = None)"
    unfolding search_valid [OF v'] none [symmetric] by (simp split: option.splits)
  have "(\<exists>r. search ord a b c = Some (Inr r)) \<longleftrightarrow> foldl (pick better ev) None ?xs \<noteq> None"
    unfolding search_valid [OF v'] by (auto split: option.splits)
  then show "(\<exists>r. search ord a b c = Some (Inr r))
         \<longleftrightarrow> (\<exists>(i::nat) t0. to_wei a + int i * to_wei c \<le> to_wei b
                  \<and> t0 \<in> set (ord (floor_t0_of (to_wei a + int i * to_wei c)))
                  \<and> evaluate_candidate (to_wei a + int i * to_wei c) t0 \<noteq> None)"
    by (simp add: none)
next
  assume v: "0 < to_wei_fee a \<and> to_wei_fee a \<le> to_wei_fee b \<and> 0 < to_wei_fee c \<and> 0 \<le> w
        \<and> 0 < to_wei_fee fee \<and> to_wei_fee fee < TARGET_ETH_WEI"
  then have v': "0 < to_wei_fee a" "to_wei_fee a \<le> to_wei_fee b" "0 < to_wei_fee c" "0 \<le> w"
    "0 < to_wei_fee fee" "to_wei_fee fee < TARGET_ETH_WEI" by auto
  let ?xs = "visited_fee w (to_wei_fee a) (to_wei_fee b) (to_wei_fee c)"
  let ?e = "ev_fee (to_wei_fee fee) w_t w_f w_p"
  have none: "foldl (pick better_fee ?e) None ?xs = None
                \<longleftrightarrow> (\<forall>(i::nat) t0. to_wei_fee a + int i * to_wei_fee c \<le> to_wei_fee b
                  \<and> floor_t0_of (to_wei_fee a + int i * to_wei_fee c) - w \<le> t0
                  \<and> t0 \<le> floor_t0_of (to_wei_fee a + int i * to_wei_fee c) + w
                \<longrightarrow> evaluate_candidate_fee (to_wei_fee a + int i * to_wei_fee c) t0
                      (to_wei_fee fee) w_t w_f w_p = None)"
    by (auto simp add: pick_fold_None set_visited_fee [OF v'(3)] ev_fee_def)
  show "(search_fee a b c w fee w_t w_f w_p
          = Some (Inl (RuntimeError ''No valid candidate found in the provided range'')))
         \<longleftrightarrow> (\<forall>(i::nat) t0. to_wei_fee a + int i * to_wei_fee c \<le> to_wei_fee b
                  \<and> floor_t0_of (to_wei_fee a + int i * to_wei_fee c) - w \<le> t0
                  \<and> t0 \<le> floor_t0_of (to_wei_fee a + int i * to_wei_fee c) + w
                \<longrightarrow> evaluate_candidate_fee (to_wei_fee a + int i * to_wei_fee c) t0
                      (to_wei_fee fee) w_t w_f w_p = None)"
    unfolding search_fee_valid [OF v'] none [symmetric] by (simp split: option.splits)
  have "(\<exists>r. search_fee a b c w fee w_t w_f w_p = Some (Inr r))
          \<longleftrightarrow> foldl (pick better_fee ?e) None ?xs \<noteq> None"
    unfolding search_fee_valid [OF v'] by (auto split: option.splits)
  then show "(\<exists>r. search_fee a b c w fee w_t w_f w_p = Some (Inr r))
         \<longleftrightarrow> (\<exists>(i::nat) t0. to_wei_fee a + int i * to_wei_fee c \<le> to_wei_fee b
                  \<and> floor_t0_of (to_wei_fee a + int i * to_wei_fee c) - w \<le> t0
                  \<and> t0 \<le> floor_t0_of (to_wei_fee a + int i * to_wei_fee c) + w
                  \<and> evaluate_candidate_fee (to_wei_fee a + int i * to_wei_fee c) t0
                      (to_wei_fee fee) w_t w_f w_p \<noteq> None)"
    by (simp add: none)
qed

text \<open>
  C10. \<open>search\<close> returns a result, an error or a candidate, for all arguments, in both
  scripts. When the step in wei is positive the \<^verbatim>\<open>while\<close> loop stops after
  \<open>(max_e0 - min_e0) div step_e0 + 1\<close> iterations (none when that number is not positive),
  and each inner loop is over a finite list: five values in the first script,
  \<open>2 * t0_window + 1\<close> in the second.
\<close>

theorem search_terminates:
  "(\<exists>r. search ord a b c = Some r)
   \<and> (\<exists>r. search_fee a b c w fee w_t w_f w_p = Some r)
   \<and> (0 < step_e0 \<longrightarrow>
        (\<exists>best. scan ord min_e0 max_e0 step_e0 None 0
                  = Some (best, nat ((max_e0 - min_e0) div step_e0 + 1))))
   \<and> (0 < step_e0 \<longrightarrow>
        (\<exists>best. scan_fee fee_wei w_t w_f w_p w min_e0 max_e0 step_e0 None 0
                  = Some (best, nat ((max_e0 - min_e0) div step_e0 + 1))))
   \<and> (set_order_ok ord \<longrightarrow> length (ord floor_t0) = 5)
   \<and> length [floor_t0 - w .. floor_t0 + w] = nat (2 * w + 1)"
proof (intro conjI impI)
  show "\<exists>r. search ord a b c = Some r"
  proof (cases "to_wei a \<le> 0 \<or> to_wei b < to_wei a \<or> to_wei c \<le> 0")
    case True
    from search_invalid [OF this, of ord] show ?thesis by blast
  next
    case False
    then have v: "0 < to_wei a" "to_wei a \<le> to_wei b" "0 < to_wei c" by auto
    show ?thesis unfolding search_valid [OF v] by (simp split: option.splits)
  qed
  show "\<exists>r. search_fee a b c w fee w_t w_f w_p = Some r"
  proof (cases "to_wei_fee a \<le> 0 \<or> to_wei_fee b < to_wei_fee a \<or> to_wei_fee c \<le> 0 \<or> w < 0
           \<or> to_wei_fee fee \<le> 0 \<or> TARGET_ETH_WEI \<le> to_wei_fee fee")
    case True
    from search_fee_invalid [OF this, of w_t w_f w_p] show ?thesis by blast
  next
    case False
    then have v: "0 < to_wei_fee a" "to_wei_fee a \<le> to_wei_fee b" "0 < to_wei_fee c" "0 \<le> w"
      "0 < to_wei_fee fee" "to_wei_fee fee < TARGET_ETH_WEI" by auto
    show ?thesis unfolding search_fee_valid [OF v] by (simp split: option.splits)
  qed
  show "\<exists>best. scan ord min_e0 max_e0 step_e0 None 0
                  = Some (best, nat ((max_e0 - min_e0) div step_e0 + 1))"
    if "0 < step_e0"
    using that by (simp add: scan_fold length_e0_points)
  show "\<exists>best. scan_fee fee_wei w_t w_f w_p w min_e0 max_e0 step_e0 None 0
                  = Some (best, nat ((max_e0 - min_e0) div step_e0 + 1))"
    if "0 < step_e0"
    using that by (simp add: scan_fee_fold length_e0_points)
  show "length (ord floor_t0) = 5" if "set_order_ok ord"
    using that by (rule set_order_ok_length)
  show "length [floor_t0 - w .. floor_t0 + w] = nat (2 * w + 1)"
    by simp
qed

section \<open>Claims about the best error\<close>

text \<open>
  C2 (as amended). The candidate returned by the first script's \<open>search\<close> has a target
  error, the absolute difference between its reserves at 8.5 ETH and \<open>TARGET_TOKENS\<close>, that is
  non-negative and no larger than the target error of any candidate evaluated during the
  scan. The candidate returned by the graduation-fee script's \<open>search\<close> has a non-negative
  \<open>token_error_wei\<close> of the same form, and it is its composite score, not its
  \<open>token_error_wei\<close>, that is no larger than that of any candidate evaluated during the scan.
\<close>

theorem search_returns_minimal_error:
  "(search ord a b c = Some (Inr r) \<longrightarrow>
      0 \<le> c_target_error r
      \<and> c_target_error r
          = \<bar>reserves_from_eth (c_k r) (c_t0 r) (c_e0 r) TARGET_ETH_WEI - TARGET_TOKENS\<bar>
      \<and> (\<forall>(i::nat) t0 cand.
            to_wei a + int i * to_wei c \<le> to_wei b
            \<and> t0 \<in> set (ord (floor_t0_of (to_wei a + int i * to_wei c)))
            \<and> evaluate_candidate (to_wei a + int i * to_wei c) t0 = Some cand
          \<longrightarrow> c_target_error r \<le> c_target_error cand))
   \<and> (search_fee a b c w fee w_t w_f w_p = Some (Inr d) \<longrightarrow>
      0 \<le> f_token_error_wei d
      \<and> f_token_error_wei d
          = \<bar>reserves_from_eth (f_k d) (f_t0 d) (f_e0 d) TARGET_ETH_WEI - TARGET_TOKENS\<bar>
      \<and> (\<forall>(i::nat) t0 cand.
            to_wei_fee a + int i * to_wei_fee c \<le> to_wei_fee b
            \<and> floor_t0_of (to_wei_fee a + int i * to_wei_fee c) - w \<le> t0
            \<and> t0 \<le> floor_t0_of (to_wei_fee a + int i * to_wei_fee c) + w
            \<and> evaluate_candidate_fee (to_wei_fee a + int i * to_wei_fee c) t0 (to_wei_fee fee)
                 w_t w_f w_p = Some cand
          \<longrightarrow> dec_val (f_score d) \<le> dec_val (f_score cand)))"
proof (intro conjI impI allI)
  assume ret: "search ord a b c = Some (Inr r)"
  from search_Inr_source [OF ret] obtain x where "ev x = Some r" by blast
  then have e: "evaluate_candidate (fst x) (snd x) = Some r" by (simp add: ev_def)
  note f = evaluate_candidate_Some [OF e]
  show "0 \<le> c_target_error r" by (simp add: f(8))
  show "c_target_error r
          = \<bar>reserves_from_eth (c_k r) (c_t0 r) (c_e0 r) TARGET_ETH_WEI - TARGET_TOKENS\<bar>"
    by (simp add: f(3-5,7,8))
  fix i :: nat and t0 cand
  assume h: "to_wei a + int i * to_wei c \<le> to_wei b
            \<and> t0 \<in> set (ord (floor_t0_of (to_wei a + int i * to_wei c)))
            \<and> evaluate_candidate (to_wei a + int i * to_wei c) t0 = Some cand"
  from search_Inr_valid [OF ret] have st: "0 < to_wei c" by simp
  from h have "(to_wei a + int i * to_wei c, t0) \<in> set (visited ord (to_wei a) (to_wei b) (to_wei c))"
    by (auto simp add: set_visited [OF st])
  from search_Inr_le [OF ret this, of cand] h
  show "c_target_error r \<le> c_target_error cand" by (simp add: ev_def)
next
  assume ret: "search_fee a b c w fee w_t w_f w_p = Some (Inr d)"
  from search_fee_Inr_source [OF ret] obtain x
    where "ev_fee (to_wei_fee fee) w_t w_f w_p x = Some d" by blast
  then have e: "evaluate_candidate_fee (fst x) (snd x) (to_wei_fee fee) w_t w_f w_p = Some d"
    by (simp add: ev_fee_def)
  note f = evaluate_candidate_fee_Some [OF e]
  show "0 \<le> f_token_error_wei d" by (simp add: f(8))
  show "f_token_error_wei d
          = \<bar>reserves_from_eth (f_k d) (f_t0 d) (f_e0 d) TARGET_ETH_WEI - TARGET_TOKENS\<bar>"
    by (simp add: f(3-5,7,8))
  fix i :: nat and t0 cand
  assume h: "to_wei_fee a + int i * to_wei_fee c \<le> to_wei_fee b
            \<and> floor_t0_of (to_wei_fee a + int i * to_wei_fee c) - w \<le> t0
            \<and> t0 \<le> floor_t0_of (to_wei_fee a + int i * to_wei_fee c) + w
            \<and> evaluate_candidate_fee (to_wei_fee a + int i * to_wei_fee c) t0 (to_wei_fee fee)
                 w_t w_f w_p = Some cand"
  from search_fee_Inr_valid [OF ret] have st: "0 < to_wei_fee c" by simp
  from h have "(to_wei_fee a + int i * to_wei_fee c, t0)
                 \<in> set (visited_fee w (to_wei_fee a) (to_wei_fee b) (to_wei_fee c))"
    by (auto simp add: set_visited_fee [OF st])
  from search_fee_Inr_le [OF ret this, of cand] h
  show "dec_val (f_score d) \<le> dec_val (f_score cand)" by (simp add: ev_fee_def)
qed

text \<open>
  C3 (as amended). In the first script, whenever the searches with two steps over the same
  range both return a candidate, the target error found with one step is no larger than the
  target error found with the other: both are zero. In the graduation-fee script, when the
  smaller step in wei divides the larger one and the search with the larger step returns a
  candidate, the search with the smaller step returns a candidate too, and its composite
  score is no larger.
\<close>

theorem finer_step_error:
  "(set_order_ok ord \<and> search ord a b s = Some (Inr r) \<and> search ord a b s' = Some (Inr r')
      \<longrightarrow> c_target_error r' \<le> c_target_error r \<and> c_target_error r' = 0)
   \<and> (0 < to_wei_fee s' \<and> to_wei_fee s' dvd to_wei_fee s
       \<and> search_fee a b s w fee w_t w_f w_p = Some (Inr d)
      \<longrightarrow> (\<exists>d'. search_fee a b s' w fee w_t w_f w_p = Some (Inr d')
                \<and> dec_val (f_score d') \<le> dec_val (f_score d)))"
proof (intro conjI impI)
  assume h: "set_order_ok ord \<and> search ord a b s = Some (Inr r) \<and> search ord a b s' = Some (Inr r')"
  then have "c_target_error r = 0" and "c_target_error r' = 0"
    by (auto intro: search_error_zero)
  then show "c_target_error r' \<le> c_target_error r" and "c_target_error r' = 0" by simp_all
next
  assume h: "0 < to_wei_fee s' \<and> to_wei_fee s' dvd to_wei_fee s
       \<and> search_fee a b s w fee w_t w_f w_p = Some (Inr d)"
  then have ret: "search_fee a b s w fee w_t w_f w_p = Some (Inr d)" by simp
  from search_fee_Inr_valid [OF ret] have v: "0 < to_wei_fee s" "0 \<le> w" by auto
  from h obtain m where m: "to_wei_fee s = to_wei_fee s' * m" by (auto elim: dvdE)
  from h have pos: "0 < to_wei_fee s'" by simp
  show "\<exists>d'. search_fee a b s' w fee w_t w_f w_p = Some (Inr d')
                \<and> dec_val (f_score d') \<le> dec_val (f_score d)"
    by (rule search_fee_superset [OF ret pos v(2) visited_fee_refine [OF pos m v(1)]])
qed

text \<open>
  C4. In the graduation-fee script, with everything else fixed, a wider window never
  increases the best error found by \<open>search\<close>, the error that \<open>search\<close> minimises being the
  weighted error score: when the search with window \<open>w\<close> returns a candidate and \<open>w \<le> w'\<close>,
  the search with window \<open>w'\<close> returns a candidate whose score is no larger.
\<close>

theorem wider_window_score:
  assumes "w \<le> w'"
    and "search_fee a b c w fee w_t w_f w_p = Some (Inr d)"
  shows "\<exists>d'. search_fee a b c w' fee w_t w_f w_p = Some (Inr d')
               \<and> dec_val (f_score d') \<le> dec_val (f_score d)"
proof -
  from search_fee_Inr_valid [OF assms(2)] have v: "0 < to_wei_fee c" "0 \<le> w" by auto
  with assms(1) have w': "0 \<le> w'" by simp
  show ?thesis
    by (rule search_fee_superset [OF assms(2) v(1) w' visited_fee_widen [OF assms(1)]])
qed

section \<open>Evaluation at concrete arguments\<close>

lemma cand_lo_m2:
  "map_option (\<lambda>c. (f_token_error_wei c, f_score c))
     (evaluate_candidate_fee 3000000000000000000 82352941176470588235294115
        500000000000000000 (10, - 1) (10, - 1) (10, - 1))
   = Some (1,
       309569479965899404572890037887801623484932725453130175825642166129211609029245151117535862,
       - 90)"
  by code_simp

lemma cand_lo_m1:
  "map_option (\<lambda>c. (f_token_error_wei c, f_score c))
     (evaluate_candidate_fee 3000000000000000000 82352941176470588235294116
        500000000000000000 (10, - 1) (10, - 1) (10, - 1))
   = Some (1,
       309569479965899404572890036980429222728789058156343790948515512064939397309018285333036806,
       - 90)"
  by code_simp

lemma cand_lo_0:
  "map_option (\<lambda>c. (f_token_error_wei c, f_score c))
     (evaluate_candidate_fee 3000000000000000000 82352941176470588235294117
        500000000000000000 (10, - 1) (10, - 1) (10, - 1))
   = Some (0,
       309569479965899404572890026162570888468809073724007561436672967863894139886578449905482043,
       - 90)"
  by code_simp

lemma cand_lo_p1:
  "map_option (\<lambda>c. (f_token_error_wei c, f_score c))
     (evaluate_candidate_fee 3000000000000000000 82352941176470588235294118
        500000000000000000 (10, - 1) (10, - 1) (10, - 1))
   = Some (1,
       309569479965899404572890025344712554208829089291671273746247081063049038140776028466585122,
       - 90)"
  by code_simp

lemma cand_lo_p2:
  "map_option (\<lambda>c. (f_token_error_wei c, f_score c))
     (evaluate_candidate_fee 3000000000000000000 82352941176470588235294119
        500000000000000000 (10, - 1) (10, - 1) (10, - 1))
   = Some (1,
       309569479965899404572890024437340153452685421994884879795396419437340153452685268542199490,
       - 90)"
  by code_simp

lemma cand_hi_m2:
  "map_option (\<lambda>c. (f_token_error_wei c, f_score c))
     (evaluate_candidate_fee 3000000000000000008 82352941176470588988235292
        500000000000000000 (10, - 1) (10, - 1) (10, - 1))
   = Some (1,
       309569479965899370637162249127654844001991899539255134382980912758955287968806361477272622,
       - 90)"
  by code_simp

lemma cand_hi_m1:
  "map_option (\<lambda>c. (f_token_error_wei c, f_score c))
     (evaluate_candidate_fee 3000000000000000008 82352941176470588988235293
        500000000000000000 (10, - 1) (10, - 1) (10, - 1))
   = Some (0,
       309569479965899370637162238309796509742011904271051396526967307087331315051412125690614355,
       - 90)"
  by code_simp

lemma cand_hi_0:
  "map_option (\<lambda>c. (f_token_error_wei c, f_score c))
     (evaluate_candidate_fee 3000000000000000008 82352941176470588988235294
        500000000000000000 (10, - 1) (10, - 1) (10, - 1))
   = Some (0,
       309569479965899370637162237402424108985868235817036438032679481405747844437742217989051528,
       - 90)"
  by code_simp

lemma cand_hi_p1:
  "map_option (\<lambda>c. (f_token_error_wei c, f_score c))
     (evaluate_candidate_fee 3000000000000000008 82352941176470588988235295
        500000000000000000 (10, - 1) (10, - 1) (10, - 1))
   = Some (1,
       309569479965899370637162236584565774725888240548832637461220529353605576568235497593591345,
       - 90)"
  by code_simp

lemma cand_hi_p2:
  "map_option (\<lambda>c. (f_token_error_wei c, f_score c))
     (evaluate_candidate_fee 3000000000000000008 82352941176470588988235296
        500000000000000000 (10, - 1) (10, - 1) (10, - 1))
   = Some (2,
       309569479965899370637162235766707440465908245280628778711178234701663356016690189697708218,
       - 90)"
  by code_simp

lemma to_wei_values:
  "to_wei (3, 0) = 3000000000000000000"
  "to_wei (1, 0) = 1000000000000000000"
  "to_wei (5, - 1) = 500000000000000000"
  "to_wei (2124999999999999997, - 18) = 2124999999999999997"
  "to_wei (2125, - 3) = 2125000000000000000"
  "to_wei (3, - 18) = 3"
  "to_wei (2, - 18) = 2"
  by code_simp+

lemma to_wei_fee_values:
  "to_wei_fee (3, 0) = 3000000000000000000"
  "to_wei_fee (3000000000000000008, - 18) = 3000000000000000008"
  "to_wei_fee (1, 0) = 1000000000000000000"
  "to_wei_fee (8, - 18) = 8"
  "to_wei_fee (5, - 1) = 500000000000000000"
  by code_simp+

lemma floor_t0_of_values:
  "floor_t0_of 3000000000000000000 = 82352941176470588235294117"
  "floor_t0_of 3000000000000000008 = 82352941176470588988235294"
  by code_simp+

lemma search_3eth:
  "search ascending (3, 0) (3, 0) (1, 0)
     = Some (Inr \<lparr>c_k = 3247058823529411764705882351000000000000000000,
                   c_t0 = 82352941176470588235294117, c_e0 = 3000000000000000000,
                   c_t_at_zero = 1000000000000000000000000000,
                   c_t_at_target = 200000000000000000000000000, c_target_error = 0\<rparr>)"
  by code_simp

lemma search_3eth_half_step:
  "search ascending (3, 0) (3, 0) (5, - 1)
     = Some (Inr \<lparr>c_k = 3247058823529411764705882351000000000000000000,
                   c_t0 = 82352941176470588235294117, c_e0 = 3000000000000000000,
                   c_t_at_zero = 1000000000000000000000000000,
                   c_t_at_target = 200000000000000000000000000, c_target_error = 0\<rparr>)"
  by code_simp

lemma search_boundary_step_3:
  "search ascending (2124999999999999997, - 18) (2125, - 3) (3, - 18)
     = Some (Inr \<lparr>c_k = 2125000000000000000000000000000000000000000000, c_t0 = 0,
                   c_e0 = 2125000000000000000,
                   c_t_at_zero = 1000000000000000000000000000,
                   c_t_at_target = 200000000000000000000000000, c_target_error = 0\<rparr>)"
  by code_simp

lemma search_boundary_step_2:
  "search ascending (2124999999999999997, - 18) (2125, - 3) (2, - 18)
     = Some (Inl (RuntimeError ''No valid candidate found in the provided range''))"
  by code_simp

lemma visited_fee_values:
  "visited_fee 0 3000000000000000000 3000000000000000000 1000000000000000000
     = [(3000000000000000000, 82352941176470588235294117)]"
  "visited_fee 2 3000000000000000000 3000000000000000000 1000000000000000000
     = [(3000000000000000000, 82352941176470588235294115),
        (3000000000000000000, 82352941176470588235294116),
        (3000000000000000000, 82352941176470588235294117),
        (3000000000000000000, 82352941176470588235294118),
        (3000000000000000000, 82352941176470588235294119)]"
  "visited_fee 2 3000000000000000000 3000000000000000008 1000000000000000000
     = [(3000000000000000000, 82352941176470588235294115),
        (3000000000000000000, 82352941176470588235294116),
        (3000000000000000000, 82352941176470588235294117),
        (3000000000000000000, 82352941176470588235294118),
        (3000000000000000000, 82352941176470588235294119)]"
  "visited_fee 2 3000000000000000000 3000000000000000008 8
     = [(3000000000000000000, 82352941176470588235294115),
        (3000000000000000000, 82352941176470588235294116),
        (3000000000000000000, 82352941176470588235294117),
        (3000000000000000000, 82352941176470588235294118),
        (3000000000000000000, 82352941176470588235294119),
        (3000000000000000008, 82352941176470588988235292),
        (3000000000000000008, 82352941176470588988235293),
        (3000000000000000008, 82352941176470588988235294),
        (3000000000000000008, 82352941176470588988235295),
        (3000000000000000008, 82352941176470588988235296)]"
  by code_simp+

lemma cands_lo:
  obtains c1 c2 c3 c4 c5 where
    "evaluate_candidate_fee 3000000000000000000 82352941176470588235294115
       500000000000000000 (10, - 1) (10, - 1) (10, - 1) = Some c1"
    "evaluate_candidate_fee 3000000000000000000 82352941176470588235294116
       500000000000000000 (10, - 1) (10, - 1) (10, - 1) = Some c2"
    "evaluate_candidate_fee 3000000000000000000 82352941176470588235294117
       500000000000000000 (10, - 1) (10, - 1) (10, - 1) = Some c3"
    "evaluate_candidate_fee 3000000000000000000 82352941176470588235294118
       500000000000000000 (10, - 1) (10, - 1) (10, - 1) = Some c4"
    "evaluate_candidate_fee 3000000000000000000 82352941176470588235294119
       500000000000000000 (10, - 1) (10, - 1) (10, - 1) = Some c5"
    "f_score c1 = (309569479965899404572890037887801623484932725453130175825642166129211609029245151117535862, - 90)"
    "f_score c2 = (309569479965899404572890036980429222728789058156343790948515512064939397309018285333036806, - 90)"
    "f_score c3 = (309569479965899404572890026162570888468809073724007561436672967863894139886578449905482043, - 90)"
    "f_score c4 = (309569479965899404572890025344712554208829089291671273746247081063049038140776028466585122, - 90)"
    "f_score c5 = (309569479965899404572890024437340153452685421994884879795396419437340153452685268542199490, - 90)"
    "f_token_error_wei c3 = 0" "f_token_error_wei c5 = 1"
  using cand_lo_m2 cand_lo_m1 cand_lo_0 cand_lo_p1 cand_lo_p2
  by (auto simp add: map_option_case split: option.splits)

lemma cands_hi:
  obtains c1 c2 c3 c4 c5 where
    "evaluate_candidate_fee 3000000000000000008 82352941176470588988235292
       500000000000000000 (10, - 1) (10, - 1) (10, - 1) = Some c1"
    "evaluate_candidate_fee 3000000000000000008 82352941176470588988235293
       500000000000000000 (10, - 1) (10, - 1) (10, - 1) = Some c2"
    "evaluate_candidate_fee 3000000000000000008 82352941176470588988235294
       500000000000000000 (10, - 1) (10, - 1) (10, - 1) = Some c3"
    "evaluate_candidate_fee 3000000000000000008 82352941176470588988235295
       500000000000000000 (10, - 1) (10, - 1) (10, - 1) = Some c4"
    "evaluate_candidate_fee 3000000000000000008 82352941176470588988235296
       500000000000000000 (10, - 1) (10, - 1) (10, - 1) = Some c5"
    "f_score c1 = (309569479965899370637162249127654844001991899539255134382980912758955287968806361477272622, - 90)"
    "f_score c2 = (309569479965899370637162238309796509742011904271051396526967307087331315051412125690614355, - 90)"
    "f_score c3 = (309569479965899370637162237402424108985868235817036438032679481405747844437742217989051528, - 90)"
    "f_score c4 = (309569479965899370637162236584565774725888240548832637461220529353605576568235497593591345, - 90)"
    "f_score c5 = (309569479965899370637162235766707440465908245280628778711178234701663356016690189697708218, - 90)"
    "f_token_error_wei c5 = 2"
  using cand_hi_m2 cand_hi_m1 cand_hi_0 cand_hi_p1 cand_hi_p2
  by (auto simp add: map_option_case split: option.splits)

lemmas fold_eval = pick_def ev_fee_def better_fee_def dec_less_def dec_align_def

lemma search_fee_3eth_window_0:
  "search_fee (3, 0) (3, 0) (1, 0) 0 (5, - 1) (10, - 1) (10, - 1) (10, - 1)
     = map_option Inr (evaluate_candidate_fee 3000000000000000000 82352941176470588235294117
                         500000000000000000 (10, - 1) (10, - 1) (10, - 1))"
proof -
  obtain c1 c2 c3 c4 c5 where c:
    "evaluate_candidate_fee 3000000000000000000 82352941176470588235294117
       500000000000000000 (10, - 1) (10, - 1) (10, - 1) = Some c3"
    by (rule cands_lo)
  show ?thesis
    by (simp add: search_fee_valid to_wei_fee_values TARGET_ETH_WEI_eq visited_fee_values
        fold_eval c)
qed

lemma search_fee_3eth_window_2:
  "search_fee (3, 0) (3, 0) (1, 0) 2 (5, - 1) (10, - 1) (10, - 1) (10, - 1)
     = map_option Inr (evaluate_candidate_fee 3000000000000000000 82352941176470588235294119
                         500000000000000000 (10, - 1) (10, - 1) (10, - 1))"
  by (rule cands_lo)
    (simp add: search_fee_valid to_wei_fee_values TARGET_ETH_WEI_eq visited_fee_values fold_eval)

lemma search_fee_step_1eth:
  "search_fee (3, 0) (3000000000000000008, - 18) (1, 0) 2 (5, - 1) (10, - 1) (10, - 1) (10, - 1)
     = map_option Inr (evaluate_candidate_fee 3000000000000000000 82352941176470588235294119
                         500000000000000000 (10, - 1) (10, - 1) (10, - 1))"
  by (rule cands_lo)
    (simp add: search_fee_valid to_wei_fee_values TARGET_ETH_WEI_eq visited_fee_values fold_eval)

lemma search_fee_step_8wei:
  "search_fee (3, 0) (3000000000000000008, - 18) (8, - 18) 2 (5, - 1) (10, - 1) (10, - 1) (10, - 1)
     = map_option Inr (evaluate_candidate_fee 3000000000000000008 82352941176470588988235296
                         500000000000000000 (10, - 1) (10, - 1) (10, - 1))"
  by (rule cands_lo, rule cands_hi)
    (simp add: search_fee_valid to_wei_fee_values TARGET_ETH_WEI_eq visited_fee_values fold_eval)

lemma cand_edge_0:
  "map_option (\<lambda>c. (f_token_error_wei c, f_score c))
     (evaluate_candidate_fee 2125000000000000000 0
        500000000000000000 (10, - 1) (10, - 1) (10, - 1))
   = Some (0,
       649705882352941176470588235294117647058823529411764705882352941176470588235294117647058824,
       - 89)"
  by code_simp

lemma to_wei_fee_edge_values:
  "to_wei_fee (2124999999999999997, - 18) = 2124999999999999997"
  "to_wei_fee (2125, - 3) = 2125000000000000000"
  "to_wei_fee (3, - 18) = 3"
  "to_wei_fee (2, - 18) = 2"
  by code_simp+

lemma visited_fee_edge_values:
  "visited_fee 0 2124999999999999997 2125000000000000000 3
     = [(2124999999999999997, - 282352942), (2125000000000000000, 0)]"
  "visited_fee 0 2124999999999999997 2125000000000000000 2
     = [(2124999999999999997, - 282352942), (2124999999999999999, - 94117648)]"
  by code_simp+

lemma evaluate_candidate_fee_negative_t0:
  "t0 < 0 \<Longrightarrow> evaluate_candidate_fee e0 t0 fee w_t w_f w_p = None"
  by (simp add: evaluate_candidate_fee_def)

lemma search_fee_edge_step_3:
  obtains d where
    "search_fee (2124999999999999997, - 18) (2125, - 3) (3, - 18) 0 (5, - 1) (10, - 1) (10, - 1)
       (10, - 1) = Some (Inr d)"
    "f_token_error_wei d = 0"
proof -
  from cand_edge_0 obtain c where c: "evaluate_candidate_fee 2125000000000000000 0
        500000000000000000 (10, - 1) (10, - 1) (10, - 1) = Some c"
    and c0: "f_token_error_wei c = 0"
    by (auto simp add: map_option_case split: option.splits)
  have "search_fee (2124999999999999997, - 18) (2125, - 3) (3, - 18) 0 (5, - 1) (10, - 1) (10, - 1)
       (10, - 1) = Some (Inr c)"
    by (simp add: search_fee_valid to_wei_fee_values to_wei_fee_edge_values TARGET_ETH_WEI_eq
        visited_fee_edge_values pick_def ev_fee_def evaluate_candidate_fee_negative_t0 c)
  then show ?thesis using c0 by (rule that)
qed

lemma search_fee_edge_step_2:
  "search_fee (2124999999999999997, - 18) (2125, - 3) (2, - 18) 0 (5, - 1) (10, - 1) (10, - 1)
     (10, - 1) = Some (Inl (RuntimeError ''No valid candidate found in the provided range''))"
  by (simp add: search_fee_valid to_wei_fee_values to_wei_fee_edge_values TARGET_ETH_WEI_eq
      visited_fee_edge_values pick_def ev_fee_def evaluate_candidate_fee_negative_t0)

section \<open>Witnesses and counterexamples\<close>

lemma search_fee_3eth_window_0_returns:
  obtains d where
    "search_fee (3, 0) (3, 0) (1, 0) 0 (5, - 1) (10, - 1) (10, - 1) (10, - 1) = Some (Inr d)"
    "evaluate_candidate_fee 3000000000000000000 82352941176470588235294117
       500000000000000000 (10, - 1) (10, - 1) (10, - 1) = Some d"
    "f_token_error_wei d = 0"
  by (rule cands_lo) (simp add: search_fee_3eth_window_0)

lemma search_fee_3eth_window_2_returns:
  obtains d where
    "search_fee (3, 0) (3, 0) (1, 0) 2 (5, - 1) (10, - 1) (10, - 1) (10, - 1) = Some (Inr d)"
    "f_token_error_wei d = 1"
  by (rule cands_lo) (simp add: search_fee_3eth_window_2)

lemma search_fee_step_1eth_returns:
  obtains d where
    "search_fee (3, 0) (3000000000000000008, - 18) (1, 0) 2 (5, - 1) (10, - 1) (10, - 1) (10, - 1)
       = Some (Inr d)"
    "f_token_error_wei d = 1"
  by (rule cands_lo) (simp add: search_fee_step_1eth)

lemma search_fee_step_8wei_returns:
  obtains d where
    "search_fee (3, 0) (3000000000000000008, - 18) (8, - 18) 2 (5, - 1) (10, - 1) (10, - 1) (10, - 1)
       = Some (Inr d)"
    "f_token_error_wei d = 2"
  by (rule cands_hi) (simp add: search_fee_step_8wei)

theorem search_returns_zero_eth_identity_witness:
  "\<exists>c d. search ascending (3, 0) (3, 0) (1, 0) = Some (Inr c)
       \<and> search_fee (3, 0) (3, 0) (1, 0) 0 (5, - 1) (10, - 1) (10, - 1) (10, - 1) = Some (Inr d)
       \<and> c_t_at_zero c = TOTAL_SUPPLY
       \<and> reserves_from_eth (c_k c) (c_t0 c) (c_e0 c) 0 = TOTAL_SUPPLY
       \<and> f_t_at_zero d = TOTAL_SUPPLY
       \<and> reserves_from_eth (f_k d) (f_t0 d) (f_e0 d) 0 = TOTAL_SUPPLY"
proof -
  obtain c where c: "search ascending (3, 0) (3, 0) (1, 0) = Some (Inr c)"
    using search_3eth by blast
  obtain d where d: "search_fee (3, 0) (3, 0) (1, 0) 0 (5, - 1) (10, - 1) (10, - 1) (10, - 1)
                       = Some (Inr d)"
    by (rule search_fee_3eth_window_0_returns)
  from search_returns_zero_eth_identity
         [of ascending "(3, 0)" "(3, 0)" "(1, 0)" c 0 "(5, - 1)" "(10, - 1)" "(10, - 1)" "(10, - 1)" d]
       c d
  show ?thesis by blast
qed

theorem search_raises_RuntimeError_iff_witness:
  "0 < to_wei (3, 0) \<and> to_wei (3, 0) \<le> to_wei (3, 0) \<and> 0 < to_wei (1, 0)
   \<and> (\<exists>(i::nat) t0. to_wei (3, 0) + int i * to_wei (1, 0) \<le> to_wei (3, 0)
          \<and> t0 \<in> set (ascending (floor_t0_of (to_wei (3, 0) + int i * to_wei (1, 0))))
          \<and> evaluate_candidate (to_wei (3, 0) + int i * to_wei (1, 0)) t0 \<noteq> None)
   \<and> 0 < to_wei_fee (3, 0) \<and> to_wei_fee (3, 0) \<le> to_wei_fee (3, 0) \<and> 0 < to_wei_fee (1, 0)
   \<and> (0::int) \<le> 0 \<and> 0 < to_wei_fee (5, - 1) \<and> to_wei_fee (5, - 1) < TARGET_ETH_WEI
   \<and> (\<exists>(i::nat) t0. to_wei_fee (3, 0) + int i * to_wei_fee (1, 0) \<le> to_wei_fee (3, 0)
          \<and> floor_t0_of (to_wei_fee (3, 0) + int i * to_wei_fee (1, 0)) - 0 \<le> t0
          \<and> t0 \<le> floor_t0_of (to_wei_fee (3, 0) + int i * to_wei_fee (1, 0)) + 0
          \<and> evaluate_candidate_fee (to_wei_fee (3, 0) + int i * to_wei_fee (1, 0)) t0
               (to_wei_fee (5, - 1)) (10, - 1) (10, - 1) (10, - 1) \<noteq> None)"
proof -
  have v: "0 < to_wei (3, 0) \<and> to_wei (3, 0) \<le> to_wei (3, 0) \<and> 0 < to_wei (1, 0)"
    by (simp add: to_wei_values)
  have vf: "0 < to_wei_fee (3, 0) \<and> to_wei_fee (3, 0) \<le> to_wei_fee (3, 0) \<and> 0 < to_wei_fee (1, 0)
              \<and> (0::int) \<le> 0 \<and> 0 < to_wei_fee (5, - 1) \<and> to_wei_fee (5, - 1) < TARGET_ETH_WEI"
    by (simp add: to_wei_fee_values TARGET_ETH_WEI_eq)
  have r: "\<exists>r. search ascending (3, 0) (3, 0) (1, 0) = Some (Inr r)"
    using search_3eth by blast
  have rf: "\<exists>r. search_fee (3, 0) (3, 0) (1, 0) 0 (5, - 1) (10, - 1) (10, - 1) (10, - 1)
                  = Some (Inr r)"
    by (rule search_fee_3eth_window_0_returns) blast
  from search_raises_RuntimeError_iff
         [of "(3, 0)" "(3, 0)" "(1, 0)" ascending 0 "(5, - 1)" "(10, - 1)" "(10, - 1)" "(10, - 1)"]
       v vf r rf
  show ?thesis by blast
qed

theorem search_terminates_witness:
  "(0::int) < 2 \<and> set_order_ok ascending
   \<and> (\<exists>best. scan ascending 1 6 2 None 0 = Some (best, 3))
   \<and> (\<exists>best. scan_fee 500000000000000000 (10, - 1) (10, - 1) (10, - 1) 2 1 6 2 None 0
                = Some (best, 3))
   \<and> length (ascending 0) = 5
   \<and> (\<exists>r. search ascending (3, 0) (3, 0) (1, 0) = Some r)"
  using search_terminates
          [of ascending "(3, 0)" "(3, 0)" "(1, 0)" 2 "(5, - 1)" "(10, - 1)" "(10, - 1)" "(10, - 1)"
              2 1 6 500000000000000000 0]
    set_order_ok_ascending
  by simp

text \<open>
  The claim C2 as stated fails in the graduation-fee script: with the default fee and
  weights, a window of 2 and the single scan point \<open>e0 = 3\<close> ETH, \<open>search\<close> returns a candidate
  with \<open>token_error_wei = 1\<close>, although the candidate at \<open>t0 = floor_t0\<close>, which the scan
  evaluates, has \<open>token_error_wei = 0\<close>.
\<close>

theorem search_fee_token_error_not_minimal:
  "map_option (map_sum (\<lambda>e. e) f_token_error_wei)
     (search_fee (3, 0) (3, 0) (1, 0) 2 (5, - 1) (10, - 1) (10, - 1) (10, - 1)) = Some (Inr 1)
   \<and> to_wei_fee (3, 0) = 3000000000000000000
   \<and> to_wei_fee (5, - 1) = 500000000000000000
   \<and> floor_t0_of 3000000000000000000 = 82352941176470588235294117
   \<and> map_option f_token_error_wei
       (evaluate_candidate_fee 3000000000000000000 82352941176470588235294117
          500000000000000000 (10, - 1) (10, - 1) (10, - 1)) = Some 0"
proof -
  obtain d where d: "search_fee (3, 0) (3, 0) (1, 0) 2 (5, - 1) (10, - 1) (10, - 1) (10, - 1)
                       = Some (Inr d)" "f_token_error_wei d = 1"
    by (rule search_fee_3eth_window_2_returns)
  obtain z where z: "evaluate_candidate_fee 3000000000000000000 82352941176470588235294117
       500000000000000000 (10, - 1) (10, - 1) (10, - 1) = Some z" "f_token_error_wei z = 0"
    by (rule search_fee_3eth_window_0_returns)
  show ?thesis
    by (simp add: d z to_wei_fee_values floor_t0_of_values)
qed

theorem search_returns_minimal_error_witness:
  "\<exists>r d cand.
     search ascending (3, 0) (3, 0) (1, 0) = Some (Inr r)
     \<and> search_fee (3, 0) (3, 0) (1, 0) 2 (5, - 1) (10, - 1) (10, - 1) (10, - 1) = Some (Inr d)
     \<and> to_wei_fee (3, 0) + int 0 * to_wei_fee (1, 0) \<le> to_wei_fee (3, 0)
     \<and> floor_t0_of (to_wei_fee (3, 0) + int 0 * to_wei_fee (1, 0)) - 2 \<le> 82352941176470588235294117
     \<and> 82352941176470588235294117 \<le> floor_t0_of (to_wei_fee (3, 0) + int 0 * to_wei_fee (1, 0)) + 2
     \<and> evaluate_candidate_fee (to_wei_fee (3, 0) + int 0 * to_wei_fee (1, 0))
          82352941176470588235294117 (to_wei_fee (5, - 1)) (10, - 1) (10, - 1) (10, - 1) = Some cand
     \<and> 0 \<le> c_target_error r
     \<and> 0 \<le> f_token_error_wei d
     \<and> dec_val (f_score d) \<le> dec_val (f_score cand)"
proof -
  obtain r where r: "search ascending (3, 0) (3, 0) (1, 0) = Some (Inr r)"
    using search_3eth by blast
  obtain d where d: "search_fee (3, 0) (3, 0) (1, 0) 2 (5, - 1) (10, - 1) (10, - 1) (10, - 1)
                       = Some (Inr d)"
    by (rule search_fee_3eth_window_2_returns)
  obtain cand where cand: "evaluate_candidate_fee 3000000000000000000 82352941176470588235294117
       500000000000000000 (10, - 1) (10, - 1) (10, - 1) = Some cand"
    by (rule search_fee_3eth_window_0_returns)
  have h: "to_wei_fee (3, 0) + int 0 * to_wei_fee (1, 0) \<le> to_wei_fee (3, 0)
     \<and> floor_t0_of (to_wei_fee (3, 0) + int 0 * to_wei_fee (1, 0)) - 2 \<le> 82352941176470588235294117
     \<and> 82352941176470588235294117 \<le> floor_t0_of (to_wei_fee (3, 0) + int 0 * to_wei_fee (1, 0)) + 2
     \<and> evaluate_candidate_fee (to_wei_fee (3, 0) + int 0 * to_wei_fee (1, 0))
          82352941176470588235294117 (to_wei_fee (5, - 1)) (10, - 1) (10, - 1) (10, - 1) = Some cand"
    by (simp add: to_wei_fee_values floor_t0_of_values cand)
  from search_returns_minimal_error
         [of ascending "(3, 0)" "(3, 0)" "(1, 0)" r 2 "(5, - 1)" "(10, - 1)" "(10, - 1)" "(10, - 1)" d]
       r d
  have "0 \<le> c_target_error r" and "0 \<le> f_token_error_wei d"
    and "\<forall>(i::nat) t0 cand.
            to_wei_fee (3, 0) + int i * to_wei_fee (1, 0) \<le> to_wei_fee (3, 0)
            \<and> floor_t0_of (to_wei_fee (3, 0) + int i * to_wei_fee (1, 0)) - 2 \<le> t0
            \<and> t0 \<le> floor_t0_of (to_wei_fee (3, 0) + int i * to_wei_fee (1, 0)) + 2
            \<and> evaluate_candidate_fee (to_wei_fee (3, 0) + int i * to_wei_fee (1, 0)) t0
                 (to_wei_fee (5, - 1)) (10, - 1) (10, - 1) (10, - 1) = Some cand
          \<longrightarrow> dec_val (f_score d) \<le> dec_val (f_score cand)"
    by blast+
  with h r d show ?thesis by blast
qed

text \<open>
  The claim C3 as stated fails. In the graduation-fee script, with the default fee and
  weights, a window of 2 and the range from 3 ETH to 3 ETH + 8 wei, the search with a step of
  1 ETH returns a candidate with \<open>token_error_wei = 1\<close> and the search with the smaller step of
  8 wei, which divides 1 ETH, returns one with \<open>token_error_wei = 2\<close>. In both scripts, over the
  range from 2.125 ETH - 3 wei to 2.125 ETH, the search with a step of 3 wei returns a
  candidate and the search with the smaller step of 2 wei, which does not divide 3 wei, finds
  none and raises.
\<close>

theorem finer_step_larger_token_error:
  "map_option (map_sum (\<lambda>e. e) f_token_error_wei)
     (search_fee (3, 0) (3000000000000000008, - 18) (1, 0) 2 (5, - 1) (10, - 1) (10, - 1) (10, - 1))
     = Some (Inr 1)
   \<and> map_option (map_sum (\<lambda>e. e) f_token_error_wei)
       (search_fee (3, 0) (3000000000000000008, - 18) (8, - 18) 2 (5, - 1) (10, - 1) (10, - 1)
          (10, - 1))
     = Some (Inr 2)
   \<and> to_wei_fee (8, - 18) = 8 \<and> to_wei_fee (1, 0) = 1000000000000000000
   \<and> map_option (map_sum (\<lambda>e. e) f_token_error_wei)
       (search_fee (2124999999999999997, - 18) (2125, - 3) (3, - 18) 0 (5, - 1) (10, - 1) (10, - 1)
          (10, - 1))
     = Some (Inr 0)
   \<and> search_fee (2124999999999999997, - 18) (2125, - 3) (2, - 18) 0 (5, - 1) (10, - 1) (10, - 1)
       (10, - 1)
     = Some (Inl (RuntimeError ''No valid candidate found in the provided range''))
   \<and> to_wei_fee (2, - 18) = 2 \<and> to_wei_fee (3, - 18) = 3
   \<and> map_option (map_sum (\<lambda>e. e) c_target_error)
       (search ascending (2124999999999999997, - 18) (2125, - 3) (3, - 18)) = Some (Inr 0)
   \<and> search ascending (2124999999999999997, - 18) (2125, - 3) (2, - 18)
     = Some (Inl (RuntimeError ''No valid candidate found in the provided range''))
   \<and> to_wei (2, - 18) = 2 \<and> to_wei (3, - 18) = 3"
proof -
  obtain d where d: "search_fee (3, 0) (3000000000000000008, - 18) (1, 0) 2 (5, - 1) (10, - 1)
                       (10, - 1) (10, - 1) = Some (Inr d)" "f_token_error_wei d = 1"
    by (rule search_fee_step_1eth_returns)
  obtain d' where d': "search_fee (3, 0) (3000000000000000008, - 18) (8, - 18) 2 (5, - 1) (10, - 1)
                       (10, - 1) (10, - 1) = Some (Inr d')" "f_token_error_wei d' = 2"
    by (rule search_fee_step_8wei_returns)
  obtain z where z: "search_fee (2124999999999999997, - 18) (2125, - 3) (3, - 18) 0 (5, - 1)
                       (10, - 1) (10, - 1) (10, - 1) = Some (Inr z)" "f_token_error_wei z = 0"
    by (rule search_fee_edge_step_3)
  show ?thesis
    by (simp add: d d' z to_wei_fee_values to_wei_fee_edge_values to_wei_values
        search_boundary_step_3 search_boundary_step_2 search_fee_edge_step_2)
qed

theorem finer_step_error_witness:
  "\<exists>r r' d.
     set_order_ok ascending
     \<and> search ascending (3, 0) (3, 0) (1, 0) = Some (Inr r)
     \<and> search ascending (3, 0) (3, 0) (5, - 1) = Some (Inr r')
     \<and> c_target_error r' \<le> c_target_error r \<and> c_target_error r' = 0
     \<and> 0 < to_wei_fee (8, - 18) \<and> to_wei_fee (8, - 18) dvd to_wei_fee (1, 0)
     \<and> search_fee (3, 0) (3000000000000000008, - 18) (1, 0) 2 (5, - 1) (10, - 1) (10, - 1)
          (10, - 1) = Some (Inr d)
     \<and> (\<exists>d'. search_fee (3, 0) (3000000000000000008, - 18) (8, - 18) 2 (5, - 1) (10, - 1)
                (10, - 1) (10, - 1) = Some (Inr d')
              \<and> dec_val (f_score d') \<le> dec_val (f_score d))"
proof -
  obtain r where r: "search ascending (3, 0) (3, 0) (1, 0) = Some (Inr r)"
    using search_3eth by blast
  obtain r' where r': "search ascending (3, 0) (3, 0) (5, - 1) = Some (Inr r')"
    using search_3eth_half_step by blast
  obtain d where d: "search_fee (3, 0) (3000000000000000008, - 18) (1, 0) 2 (5, - 1) (10, - 1)
                       (10, - 1) (10, - 1) = Some (Inr d)"
    by (rule search_fee_step_1eth_returns)
  have dv: "0 < to_wei_fee (8, - 18) \<and> to_wei_fee (8, - 18) dvd to_wei_fee (1, 0)"
    by (simp add: to_wei_fee_values)
  from finer_step_error
         [where ord = ascending and a = "(3, 0)" and b = "(3, 0)" and s = "(1, 0)"
            and s' = "(5, - 1)" and r = r and r' = r']
       set_order_ok_ascending r r'
  have one: "c_target_error r' \<le> c_target_error r \<and> c_target_error r' = 0"
    by blast
  from finer_step_error
         [where a = "(3, 0)" and b = "(3000000000000000008, - 18)" and s = "(1, 0)"
            and s' = "(8, - 18)" and w = 2 and fee = "(5, - 1)" and w_t = "(10, - 1)"
            and w_f = "(10, - 1)" and w_p = "(10, - 1)" and d = d]
       d dv
  have two: "\<exists>d'. search_fee (3, 0) (3000000000000000008, - 18) (8, - 18) 2 (5, - 1) (10, - 1)
                (10, - 1) (10, - 1) = Some (Inr d')
              \<and> dec_val (f_score d') \<le> dec_val (f_score d)"
    by blast
  from set_order_ok_ascending r r' d dv one two show ?thesis by blast
qed

theorem wider_window_score_witness:
  "\<exists>d. (0::int) \<le> 2
     \<and> search_fee (3, 0) (3, 0) (1, 0) 0 (5, - 1) (10, - 1) (10, - 1) (10, - 1) = Some (Inr d)
     \<and> (\<exists>d'. search_fee (3, 0) (3, 0) (1, 0) 2 (5, - 1) (10, - 1) (10, - 1) (10, - 1)
                = Some (Inr d')
              \<and> dec_val (f_score d') \<le> dec_val (f_score d))"
proof -
  obtain d where d: "search_fee (3, 0) (3, 0) (1, 0) 0 (5, - 1) (10, - 1) (10, - 1) (10, - 1)
                       = Some (Inr d)"
    by (rule search_fee_3eth_window_0_returns)
  have w: "(0::int) \<le> 2" by simp
  from wider_window_score [OF w d] d w show ?thesis by blast
qed

end
